theory Spec2Isabelle
  imports
    Complex_Main
    "HOL-Library.AList"
    "HOL-Library.Char_ord"
    "HOL-Library.List_Lexorder"
    "HOL-Library.Word"
begin

section \<open>Text-to-Motion API gateway: a shallow embedding of \<^verbatim>\<open>text_motion_api/main.py\<close>\<close>

text \<open>
  The gateway keeps a registry of user sessions, limits the requests of each session in a
  fixed one-minute window, asks a remote WebSocket server for a motion, converts the NPZ
  answer into a JSON-friendly record and stores it in the session, evicting the oldest
  record when the store is full.

  Conventions of the embedding.
  \<^item> A Python \<^verbatim>\<open>dict\<close> is an association list in insertion order with distinct keys:
    \<open>map_of\<close> reads it, \<open>AList.update\<close> is \<^verbatim>\<open>d[k] = v\<close> (in place when the key exists,
    appended otherwise), \<open>AList.delete\<close> is \<^verbatim>\<open>del d[k]\<close>.
  \<^item> A \<^verbatim>\<open>datetime\<close> is an integer number of microseconds, a \<^verbatim>\<open>timedelta\<close> likewise.
  \<^item> Every read of the environment (the clock, \<^verbatim>\<open>uuid4\<close>, the WebSocket exchange, the
    parsers of the libraries) is an explicit argument of the function that performs it.
  \<^item> A raised exception is the left summand of the result.
  \<^item> The handlers are modelled one request at a time: a handler runs from its first to its
    last line on the registry it is given and returns the registry it leaves behind.
\<close>

subsection \<open>Time and configuration\<close>

type_synonym datetime = int
type_synonym timedelta = int

definition minutes :: "int \<Rightarrow> timedelta" where
  "minutes n = n * 60000000"

definition hours :: "int \<Rightarrow> timedelta" where
  "hours n = n * 3600000000"

record Config =
  WS_TIMEOUT :: rat
  DATA_RETENTION_MINUTES :: int
  CLEANUP_INTERVAL_MINUTES :: int
  MAX_STORED_MOTIONS_PER_USER :: int
  MAX_REQUESTS_PER_MINUTE :: int

text \<open>The values the class \<^verbatim>\<open>Config\<close> takes when no environment variable is set.\<close>

definition default_Config :: Config where
  "default_Config =
     \<lparr>WS_TIMEOUT = 60, DATA_RETENTION_MINUTES = 30, CLEANUP_INTERVAL_MINUTES = 5,
      MAX_STORED_MOTIONS_PER_USER = 10, MAX_REQUESTS_PER_MINUTE = 10\<rparr>"

subsection \<open>Values: JSON, arrays, nested lists\<close>

type_synonym bytes = "8 word list"

type_synonym ('k, 'v) dict = "('k \<times> 'v) list"

text \<open>What \<^verbatim>\<open>json.loads\<close> returns.\<close>

datatype json =
    JNull
  | JBool bool
  | JInt int
  | JFloat rat
  | JStr string
  | JArr "json list"
  | JObj "(string \<times> json) list"

text \<open>
  A floating-point or integer value: a finite number, not-a-number, or an infinity
  (\<open>Infinity True\<close> the positive one).
\<close>

datatype number = Finite rat | NaN | Infinity bool

text \<open>
  An element of an array: a number, an element that is not a number and that neither
  \<^verbatim>\<open>int\<close> nor the conversion to \<^verbatim>\<open>float32\<close> accepts (a string that is not a numeral), or a
  Python object, which makes the array an object array. Elements of other kinds (numerals
  stored as strings, complex numbers, dates) are not modelled.
\<close>

datatype item = Number number | NonNumeric | Object

text \<open>
  A \<^verbatim>\<open>numpy.ndarray\<close>, by its nesting: a zero-dimensional array is one element, an array
  with at least one axis is the sequence of its sub-arrays along the first axis.
\<close>

datatype ndarray = Scalar item | Array "ndarray list"

text \<open>
  What \<^verbatim>\<open>ndarray.tolist()\<close> returns: a number, a value that is not a number, or a list of
  such values.
\<close>

datatype pyval = PyNum number | PyOther | PyList "pyval list"

type_synonym npz = "(string, ndarray) dict"

subsection \<open>Exceptions\<close>

datatype detail = Detail_dict json json | Detail_str string

text \<open>
  \<open>Detail_dict e c\<close> is the dictionary \<^verbatim>\<open>{"error": e, "code": c}\<close>; every dictionary the
  program passes as \<^verbatim>\<open>detail\<close> has exactly these two keys.
\<close>

datatype exn =
    HTTPException int detail
  | KeyError string
  | IndexError
  | TypeError
  | ValueError
  | ZeroDivisionError
  | OverflowError
  | AttributeError
  | ValidationError
  | TimeoutError
  | ConnectionRefusedError
  | WebSocketException string
  | OtherError string

text \<open>
  Sequencing: the statements after one that raises are not run, and the exception is the
  result.
\<close>

definition and_then :: "exn + 'a \<Rightarrow> ('a \<Rightarrow> exn + 'b) \<Rightarrow> exn + 'b" where
  "and_then r f = (case r of Inl e \<Rightarrow> Inl e | Inr x \<Rightarrow> f x)"

subsection \<open>Sessions and motions\<close>

record parameters =
  p_motion_length :: rat
  p_num_inference_steps :: int
  p_adaptive_smooth :: bool
  p_static_start :: bool
  p_transition_steps :: int

text \<open>The dictionary \<^verbatim>\<open>motion_data\<close> built by \<^verbatim>\<open>convert_npz_to_motion_data\<close>.\<close>

record MotionData =
  name :: string
  fps :: rat
  joint_pos :: pyval
  root_pos :: pyval
  root_quat :: pyval
  frame_count :: int
  duration :: rat
  motion_created_at :: string

text \<open>The same dictionary after \<^verbatim>\<open>generate_motion\<close> has added its three keys.\<close>

record StoredMotion = MotionData +
  motion_id :: string
  text_prompt :: string
  motion_parameters :: parameters

record UserSession =
  session_id :: string
  created_at :: datetime
  last_activity :: datetime
  motions :: "(string, StoredMotion) dict"
  request_count :: int
  request_window_start :: datetime

type_synonym sessions = "(string, UserSession) dict"

subsection \<open>\<^verbatim>\<open>AppState\<close>\<close>

text \<open>
  \<^verbatim>\<open>get_or_create_session\<close>. \<open>now\<close> is the value of \<^verbatim>\<open>datetime.now()\<close> in the branch taken,
  \<open>now_window\<close> the one the default factory of \<^verbatim>\<open>request_window_start\<close> reads when the
  dataclass is constructed, \<open>new_uuid\<close> the value of \<^verbatim>\<open>str(uuid.uuid4())\<close>.
  \<open>find_session ss sid\<close> is the lookup guarded by \<^verbatim>\<open>session_id and session_id in sessions\<close>
  (a supplied identifier is truthy when it is neither \<^verbatim>\<open>None\<close> nor empty), \<open>py_or sid d\<close> is
  \<^verbatim>\<open>session_id or d\<close>. In the first branch the session found is the object stored under
  the supplied identifier, so the registry sees the new \<^verbatim>\<open>last_activity\<close>.
\<close>

definition find_session :: "sessions \<Rightarrow> string option \<Rightarrow> UserSession option" where
  "find_session ss sid =
     (case sid of None \<Rightarrow> None | Some s \<Rightarrow> if s \<noteq> [] then map_of ss s else None)"

definition py_or :: "string option \<Rightarrow> string \<Rightarrow> string" where
  "py_or sid d = (case sid of None \<Rightarrow> d | Some s \<Rightarrow> if s \<noteq> [] then s else d)"

definition get_or_create_session ::
  "sessions \<Rightarrow> string option \<Rightarrow> datetime \<Rightarrow> datetime \<Rightarrow> string \<Rightarrow> sessions \<times> UserSession" where
  "get_or_create_session ss sid now now_window new_uuid =
     (case find_session ss sid of
        Some session \<Rightarrow>
          (let session' = session\<lparr>last_activity := now\<rparr>
           in (AList.update (py_or sid []) session' ss, session'))
      | None \<Rightarrow>
          (let new_session_id = py_or sid new_uuid;
               session = \<lparr>session_id = new_session_id, created_at = now, last_activity = now,
                          motions = [], request_count = 0,
                          request_window_start = now_window\<rparr>
           in (AList.update new_session_id session ss, session)))"

text \<open>
  \<^verbatim>\<open>timedelta(minutes=n)\<close>: a \<^verbatim>\<open>timedelta\<close> lies between -999999999 days and 999999999 days,
  23 hours, 59 minutes, 59.999999 seconds, and the constructor raises \<^verbatim>\<open>OverflowError\<close>
  outside.
\<close>

definition timedelta_minutes :: "int \<Rightarrow> exn + timedelta" where
  "timedelta_minutes n =
     (if - 1439999998560 \<le> n \<and> n \<le> 1439999999999 then Inr (minutes n) else Inl OverflowError)"

text \<open>
  \<^verbatim>\<open>cleanup_expired_sessions\<close>: the first loop collects the identifiers, the second deletes
  them. The test of the first loop builds the retention \<^verbatim>\<open>timedelta\<close> for every session,
  in front of the age test; when that raises, the loop ends there and nothing is deleted.
\<close>

definition is_expired :: "Config \<Rightarrow> datetime \<Rightarrow> UserSession \<Rightarrow> exn + bool" where
  "is_expired cfg now session =
     (let inactive_duration = now - last_activity session;
          session_age = now - created_at session
      in and_then (timedelta_minutes (DATA_RETENTION_MINUTES cfg))
           (\<lambda>retention. Inr (inactive_duration > retention \<or> session_age > hours 2)))"

fun expired_sessions :: "Config \<Rightarrow> datetime \<Rightarrow> sessions \<Rightarrow> exn + string list" where
  "expired_sessions cfg now [] = Inr []"
| "expired_sessions cfg now ((sid, session) # rest) =
     and_then (is_expired cfg now session)
       (\<lambda>expired. and_then (expired_sessions cfg now rest)
          (\<lambda>ids. Inr (if expired then sid # ids else ids)))"

definition cleanup_expired_sessions :: "Config \<Rightarrow> datetime \<Rightarrow> sessions \<Rightarrow> exn + sessions" where
  "cleanup_expired_sessions cfg now ss =
     and_then (expired_sessions cfg now ss) (\<lambda>ids. Inr (fold AList.delete ids ss))"

text \<open>
  \<^verbatim>\<open>check_rate_limit\<close> mutates the session it is given and returns the verdict; the model
  returns both.
\<close>

definition check_rate_limit :: "Config \<Rightarrow> datetime \<Rightarrow> UserSession \<Rightarrow> UserSession \<times> bool" where
  "check_rate_limit cfg now session =
     (let window_duration = now - request_window_start session;
          session1 = (if window_duration > minutes 1
                      then session\<lparr>request_count := 0, request_window_start := now\<rparr>
                      else session)
      in if request_count session1 \<ge> MAX_REQUESTS_PER_MINUTE cfg then (session1, False)
         else (session1\<lparr>request_count := request_count session1 + 1\<rparr>, True))"

text \<open>
  Consecutive admission checks of one session, at the given clock readings: the session
  after the last check and the verdicts in order.
\<close>

fun check_rate_limits :: "Config \<Rightarrow> datetime list \<Rightarrow> UserSession \<Rightarrow> UserSession \<times> bool list" where
  "check_rate_limits cfg [] session = (session, [])"
| "check_rate_limits cfg (now # nows) session =
     (let (session1, ok) = check_rate_limit cfg now session;
          (session2, oks) = check_rate_limits cfg nows session1
      in (session2, ok # oks))"

subsection \<open>The motion codec\<close>

text \<open>
  \<open>npz_getitem\<close> is \<^verbatim>\<open>data[key]\<close> on the loaded archive: a missing member is a
  \<^verbatim>\<open>KeyError\<close>, and an object array is refused with a \<^verbatim>\<open>ValueError\<close>, since the archive is
  loaded without \<^verbatim>\<open>allow_pickle\<close>. \<open>getitem0\<close> is \<^verbatim>\<open>a[0]\<close> and \<open>shape0\<close> is \<^verbatim>\<open>a.shape[0]\<close>.
  \<open>py_int\<close> is \<^verbatim>\<open>int(a)\<close> on an array or array scalar, as NumPy 2.4 has it: a finite number
  is truncated towards zero, not-a-number is a \<^verbatim>\<open>ValueError\<close>, an infinity an
  \<^verbatim>\<open>OverflowError\<close>, an element that is not a number a \<^verbatim>\<open>ValueError\<close>, and an array with at
  least one axis a \<^verbatim>\<open>TypeError\<close> (earlier releases converted such an array when it had one
  element). \<open>astype\<close> is \<^verbatim>\<open>a.astype(np.float32)\<close>: a \<^verbatim>\<open>ValueError\<close> when an element is not a
  number, otherwise the rounding to single precision applied to every element. \<open>tolist\<close>
  is \<^verbatim>\<open>a.tolist()\<close>.
\<close>

fun has_object :: "ndarray \<Rightarrow> bool" where
  "has_object (Scalar i) = (i = Object)"
| "has_object (Array xs) = list_ex has_object xs"

definition npz_getitem :: "npz \<Rightarrow> string \<Rightarrow> exn + ndarray" where
  "npz_getitem data key =
     (case map_of data key of
        None \<Rightarrow> Inl (KeyError key)
      | Some a \<Rightarrow> if has_object a then Inl ValueError else Inr a)"

definition getitem0 :: "ndarray \<Rightarrow> exn + ndarray" where
  "getitem0 a =
     (case a of Scalar i \<Rightarrow> Inl IndexError
      | Array [] \<Rightarrow> Inl IndexError
      | Array (x # xs) \<Rightarrow> Inr x)"

definition shape0 :: "ndarray \<Rightarrow> exn + int" where
  "shape0 a = (case a of Scalar i \<Rightarrow> Inl IndexError | Array xs \<Rightarrow> Inr (int (length xs)))"

definition trunc :: "rat \<Rightarrow> int" where
  "trunc q = (if q \<ge> 0 then \<lfloor>q\<rfloor> else \<lceil>q\<rceil>)"

fun py_int :: "ndarray \<Rightarrow> exn + int" where
  "py_int (Array xs) = Inl TypeError"
| "py_int (Scalar (Number (Finite q))) = Inr (trunc q)"
| "py_int (Scalar (Number NaN)) = Inl ValueError"
| "py_int (Scalar (Number (Infinity positive))) = Inl OverflowError"
| "py_int (Scalar NonNumeric) = Inl ValueError"
| "py_int (Scalar Object) = Inl TypeError"

fun numeric :: "ndarray \<Rightarrow> bool" where
  "numeric (Scalar i) = (case i of Number n \<Rightarrow> True | NonNumeric \<Rightarrow> False | Object \<Rightarrow> False)"
| "numeric (Array xs) = list_all numeric xs"

fun rounded :: "(number \<Rightarrow> number) \<Rightarrow> ndarray \<Rightarrow> ndarray" where
  "rounded f (Scalar i) =
     Scalar (case i of Number n \<Rightarrow> Number (f n) | NonNumeric \<Rightarrow> NonNumeric | Object \<Rightarrow> Object)"
| "rounded f (Array xs) = Array (map (rounded f) xs)"

definition astype :: "(number \<Rightarrow> number) \<Rightarrow> ndarray \<Rightarrow> exn + ndarray" where
  "astype f a = (if numeric a then Inr (rounded f a) else Inl ValueError)"

fun tolist :: "ndarray \<Rightarrow> pyval" where
  "tolist (Scalar i) = (case i of Number n \<Rightarrow> PyNum n | NonNumeric \<Rightarrow> PyOther | Object \<Rightarrow> PyOther)"
| "tolist (Array xs) = PyList (map tolist xs)"

text \<open>
  \<^verbatim>\<open>convert_npz_to_motion_data\<close>. \<open>np_load\<close> is \<^verbatim>\<open>np.load\<close> on the bytes, \<open>float32\<close> the
  rounding of \<^verbatim>\<open>astype(np.float32)\<close>, \<open>now_iso\<close> the value of
  \<^verbatim>\<open>datetime.now().isoformat()\<close>. The members of a loaded archive are arrays, so the
  \<^verbatim>\<open>isinstance\<close> test holds and \<^verbatim>\<open>fps\<close> is read as \<^verbatim>\<open>int(data['fps'][0])\<close>. Each of the
  three other members is converted as soon as it is read. The quotient
  \<^verbatim>\<open>frame_count / fps\<close> of two Python integers is their exact quotient here; Python rounds
  it to the nearest double.
\<close>

definition convert_npz_to_motion_data ::
  "(bytes \<Rightarrow> exn + npz) \<Rightarrow> (number \<Rightarrow> number) \<Rightarrow> string \<Rightarrow> bytes \<Rightarrow> string \<Rightarrow> exn + MotionData" where
  "convert_npz_to_motion_data np_load float32 now_iso npz_bytes motion_name =
     and_then (np_load npz_bytes) (\<lambda>data.
     and_then (npz_getitem data ''fps'') (\<lambda>fps_arr.
     and_then (getitem0 fps_arr) (\<lambda>fps0.
     and_then (py_int fps0) (\<lambda>fps_int.
     and_then (npz_getitem data ''joint_pos'') (\<lambda>jp.
     and_then (astype float32 jp) (\<lambda>jp32.
     and_then (npz_getitem data ''root_pos'') (\<lambda>rp.
     and_then (astype float32 rp) (\<lambda>rp32.
     and_then (npz_getitem data ''root_rot'') (\<lambda>rr.
     and_then (astype float32 rr) (\<lambda>rr32.
     and_then (shape0 jp32) (\<lambda>n.
       if fps_int = 0 then Inl ZeroDivisionError
       else Inr \<lparr>name = motion_name,
                 fps = of_int fps_int,
                 joint_pos = tolist jp32,
                 root_pos = tolist rp32,
                 root_quat = tolist rr32,
                 frame_count = n,
                 duration = of_int n / of_int fps_int,
                 motion_created_at = now_iso\<rparr>)))))))))))"

text \<open>\<^verbatim>\<open>len\<close> of a value returned by \<^verbatim>\<open>tolist\<close>: only a list has one.\<close>

definition py_len :: "pyval \<Rightarrow> nat option" where
  "py_len v = (case v of PyNum q \<Rightarrow> None | PyOther \<Rightarrow> None | PyList xs \<Rightarrow> Some (length xs))"

subsection \<open>The remote generation client\<close>

text \<open>
  What the WebSocket library does during one exchange: \<^verbatim>\<open>connect\<close>, \<^verbatim>\<open>send\<close> or the bounded
  \<^verbatim>\<open>recv\<close> raises an exception, or a message is received. \<open>TimeoutError\<close> is the exception
  of a wait that ran out of time, \<open>ConnectionRefusedError\<close> the one of a refused
  connection, \<open>WebSocketException\<close> with its text any exception of the library's own.
  The passing of time is not modelled: that the wait for the answer lasted longer than
  \<^verbatim>\<open>WS_TIMEOUT\<close> is the outcome \<open>Raised TimeoutError\<close>.
\<close>

datatype ws_message = Text string | Binary bytes

datatype ws_outcome = Raised exn | Received ws_message

definition dict_get :: "(string, json) dict \<Rightarrow> string \<Rightarrow> json \<Rightarrow> json" where
  "dict_get d k dflt = (case map_of d k of None \<Rightarrow> dflt | Some v \<Rightarrow> v)"

text \<open>
  The body of the \<^verbatim>\<open>try\<close> statement of \<^verbatim>\<open>generate_motion_from_remote\<close>. \<open>json_loads\<close> is
  \<^verbatim>\<open>json.loads\<close>, \<open>None\<close> when it raises \<^verbatim>\<open>JSONDecodeError\<close>. A text that parses to
  something other than an object has no method \<^verbatim>\<open>get\<close>.
\<close>

fun try_body :: "(string \<Rightarrow> json option) \<Rightarrow> ws_outcome \<Rightarrow> exn + bytes" where
  "try_body json_loads (Raised x) = Inl x"
| "try_body json_loads (Received (Binary response)) = Inr response"
| "try_body json_loads (Received (Text response)) =
     (case json_loads response of
        None \<Rightarrow>
          Inl (HTTPException 500
                 (Detail_dict (JStr ''Invalid response from server'') (JStr ''INVALID_RESPONSE'')))
      | Some (JObj error_data) \<Rightarrow>
          (let error_msg = dict_get error_data ''error'' (JStr ''Unknown error'');
               error_code = dict_get error_data ''code'' (JStr ''SERVER_ERROR'')
           in Inl (HTTPException 500 (Detail_dict error_msg error_code)))
      | Some other \<Rightarrow> Inl AttributeError)"

text \<open>
  The value of the expression \<^verbatim>\<open>websockets.exceptions.ConnectionRefused\<close>, as the test of
  which exceptions are its instances. The module \<^verbatim>\<open>websockets.exceptions\<close> defines no such
  name, so evaluating the expression raises \<^verbatim>\<open>AttributeError\<close>.
\<close>

definition ConnectionRefused :: "exn + (exn \<Rightarrow> bool)" where
  "ConnectionRefused = Inl AttributeError"

text \<open>
  The three \<^verbatim>\<open>except\<close> clauses, for an exception that leaves the body: the exception that
  leaves the statement. Python evaluates the expression of a clause when it reaches the
  clause, so an exception that is not a \<^verbatim>\<open>TimeoutError\<close> makes it evaluate the expression
  of the second clause, and an exception raised by that evaluation replaces the first.
\<close>

definition except_clauses :: "exn \<Rightarrow> exn" where
  "except_clauses x =
     (if x = TimeoutError
      then HTTPException 504
             (Detail_dict (JStr ''Request timeout - generation took too long'') (JStr ''TIMEOUT''))
      else case ConnectionRefused of
             Inl lookup_error \<Rightarrow> lookup_error
           | Inr is_instance \<Rightarrow>
               if is_instance x
               then HTTPException 503
                      (Detail_dict (JStr ''Motion generation server unavailable'')
                         (JStr ''SERVER_UNAVAILABLE''))
               else (case x of
                       WebSocketException e \<Rightarrow>
                         HTTPException 502
                           (Detail_dict (JStr (''WebSocket error: '' @ e))
                              (JStr ''WEBSOCKET_ERROR''))
                     | other \<Rightarrow> other))"

definition generate_motion_from_remote :: "(string \<Rightarrow> json option) \<Rightarrow> ws_outcome \<Rightarrow> exn + bytes" where
  "generate_motion_from_remote json_loads outcome =
     (case try_body json_loads outcome of
        Inl x \<Rightarrow> Inl (except_clauses x)
      | Inr response \<Rightarrow> Inr response)"

subsection \<open>The motion store\<close>

text \<open>
  Python's \<^verbatim>\<open>min(xs, key=f)\<close>: the first element whose key is least, \<^verbatim>\<open>ValueError\<close> on an
  empty sequence.
\<close>

fun py_min :: "('a \<Rightarrow> 'b::linorder) \<Rightarrow> 'a list \<Rightarrow> exn + 'a" where
  "py_min f [] = Inl ValueError"
| "py_min f (x # xs) = Inr (fold (\<lambda>y best. if f y < f best then y else best) xs x)"

text \<open>
  The key of \<^verbatim>\<open>enforce_motion_limit\<close>: the \<^verbatim>\<open>created_at\<close> string of the motion stored under
  \<open>k\<close>. Every stored motion has the field and \<open>k\<close> ranges over the keys of the store, so
  the default \<^verbatim>\<open>''\<close> is the value only for a key that is not there.
\<close>

definition created_at_key :: "(string, StoredMotion) dict \<Rightarrow> string \<Rightarrow> string" where
  "created_at_key ms k = (case map_of ms k of None \<Rightarrow> [] | Some m \<Rightarrow> motion_created_at m)"

definition enforce_motion_limit :: "Config \<Rightarrow> UserSession \<Rightarrow> exn + UserSession" where
  "enforce_motion_limit cfg session =
     (if int (length (motions session)) \<ge> MAX_STORED_MOTIONS_PER_USER cfg
      then (case py_min (created_at_key (motions session)) (map fst (motions session)) of
              Inl e \<Rightarrow> Inl e
            | Inr oldest_id \<Rightarrow> Inr (session\<lparr>motions := AList.delete oldest_id (motions session)\<rparr>))
      else Inr session)"

text \<open>
  The two statements with which \<^verbatim>\<open>generate_motion\<close> stores a record:
  \<^verbatim>\<open>enforce_motion_limit(session)\<close>, then \<^verbatim>\<open>session.motions[motion_id] = motion_data\<close>.
\<close>

definition store_motion :: "Config \<Rightarrow> string \<Rightarrow> StoredMotion \<Rightarrow> UserSession \<Rightarrow> exn + UserSession" where
  "store_motion cfg mid motion_data session =
     and_then (enforce_motion_limit cfg session)
       (\<lambda>session1. Inr (session1\<lparr>motions := AList.update mid motion_data (motions session1)\<rparr>))"

text \<open>
  A sequence of such inserts into the store of one session. An insert that raises leaves
  the session as it was, and the next one starts from there.
\<close>

fun store_motions :: "Config \<Rightarrow> (string \<times> StoredMotion) list \<Rightarrow> UserSession \<Rightarrow> UserSession" where
  "store_motions cfg [] session = session"
| "store_motions cfg ((mid, motion_data) # rest) session =
     store_motions cfg rest
       (case store_motion cfg mid motion_data session of Inl x \<Rightarrow> session | Inr session' \<Rightarrow> session')"

subsection \<open>Request handlers\<close>

record TextToMotionRequest =
  request_text :: string
  motion_length :: rat
  num_inference_steps :: int
  seed :: "int option"
  smooth :: "bool option"
  smooth_window :: int
  adaptive_smooth :: bool
  static_start :: bool
  static_frames :: int
  blend_frames :: int
  transition_steps :: int

text \<open>
  What one call of \<^verbatim>\<open>generate_motion\<close> reads from its environment, in the order of the
  reads: the clock in \<^verbatim>\<open>get_or_create_session\<close> and in the default factory, \<^verbatim>\<open>uuid4\<close> for
  the session, the clock in \<^verbatim>\<open>check_rate_limit\<close>, the WebSocket exchange, \<^verbatim>\<open>json.loads\<close>,
  the \<^verbatim>\<open>strftime\<close> stamp and the \<^verbatim>\<open>uuid4().hex\<close> of the motion identifier, \<^verbatim>\<open>np.load\<close>, the
  rounding to single precision, the \<^verbatim>\<open>isoformat\<close> stamp of the record, and \<^verbatim>\<open>str(e)\<close> of a
  caught exception. The message sent to the server is built from the request alone and
  does not occur in the result, which depends on the exchange only through its outcome.
\<close>

record env =
  now_session :: datetime
  now_factory :: datetime
  uuid_session :: string
  now_rate :: datetime
  ws_exchange :: ws_outcome
  loads :: "string \<Rightarrow> json option"
  now_strftime :: string
  uuid_hex :: string
  load_npz :: "bytes \<Rightarrow> exn + npz"
  to_float32 :: "number \<Rightarrow> number"
  now_isoformat :: string
  exc_str :: "exn \<Rightarrow> string"

datatype GenerationResponse = GenerationResponse bool string MotionData string

text \<open>
  The response model \<^verbatim>\<open>MotionData\<close> declares its three sequences as \<^verbatim>\<open>list\<close>; its
  constructor rejects a number there. The other fields have the declared types by
  construction.
\<close>

definition is_list :: "pyval \<Rightarrow> bool" where
  "is_list v = (case v of PyNum q \<Rightarrow> False | PyOther \<Rightarrow> False | PyList xs \<Rightarrow> True)"

definition validate_MotionData :: "MotionData \<Rightarrow> exn + MotionData" where
  "validate_MotionData m =
     (if is_list (joint_pos m) \<and> is_list (root_pos m) \<and> is_list (root_quat m) then Inr m
      else Inl ValidationError)"

text \<open>
  The body of the \<^verbatim>\<open>try\<close> statement of \<^verbatim>\<open>generate_motion\<close>, on the session object: it
  returns the session as the body leaves it and the value or the exception of the body.
\<close>

definition generate_motion_try ::
  "Config \<Rightarrow> env \<Rightarrow> UserSession \<Rightarrow> TextToMotionRequest \<Rightarrow> UserSession \<times> (exn + GenerationResponse)" where
  "generate_motion_try cfg e session request =
     (case generate_motion_from_remote (loads e) (ws_exchange e) of
        Inl x \<Rightarrow> (session, Inl x)
      | Inr npz_bytes \<Rightarrow>
          (let mid = ''gen_'' @ now_strftime e @ ''_'' @ take 8 (uuid_hex e);
               motion_name = ''[AI] '' @ take 30 (request_text request)
           in case convert_npz_to_motion_data (load_npz e) (to_float32 e) (now_isoformat e)
                     npz_bytes motion_name of
                Inl x \<Rightarrow> (session, Inl x)
              | Inr converted \<Rightarrow>
                  (let motion_data =
                         MotionData.extend converted
                           (StoredMotion.fields mid (request_text request)
                              \<lparr>p_motion_length = motion_length request,
                               p_num_inference_steps = num_inference_steps request,
                               p_adaptive_smooth = adaptive_smooth request,
                               p_static_start = static_start request,
                               p_transition_steps = transition_steps request\<rparr>)
                   in case store_motion cfg mid motion_data session of
                        Inl x \<Rightarrow> (session, Inl x)
                      | Inr session2 \<Rightarrow>
                          (session2,
                           and_then (validate_MotionData (MotionData.truncate motion_data))
                             (\<lambda>m. Inr (GenerationResponse True mid m
                                          ''Motion generated successfully''))))))"

text \<open>
  The two \<^verbatim>\<open>except\<close> clauses of \<^verbatim>\<open>generate_motion\<close>: an \<^verbatim>\<open>HTTPException\<close> is raised again,
  any other exception becomes the status 500 with the code \<^verbatim>\<open>GENERATION_FAILED\<close>.
\<close>

fun reraise :: "(exn \<Rightarrow> string) \<Rightarrow> exn \<Rightarrow> exn" where
  "reraise str (HTTPException status d) = HTTPException status d"
| "reraise str x =
     HTTPException 500
       (Detail_dict (JStr (''Failed to generate motion: '' @ str x)) (JStr ''GENERATION_FAILED''))"

text \<open>
  \<^verbatim>\<open>generate_motion\<close>. The session object is the one the registry holds under the key
  \<open>py_or header (uuid_session e)\<close>, where \<^verbatim>\<open>get_or_create_session\<close> found or stored it, so
  every mutation of the object is a mutation of that entry.
\<close>

definition generate_motion ::
  "Config \<Rightarrow> env \<Rightarrow> sessions \<Rightarrow> string option \<Rightarrow> TextToMotionRequest
     \<Rightarrow> sessions \<times> (exn + GenerationResponse)" where
  "generate_motion cfg e ss header request =
     (let (ss1, session) =
            get_or_create_session ss header (now_session e) (now_factory e) (uuid_session e);
          key = py_or header (uuid_session e);
          (session1, admitted) = check_rate_limit cfg (now_rate e) session
      in if \<not> admitted
         then (AList.update key session1 ss1,
               Inl (HTTPException 429
                      (Detail_dict (JStr ''Rate limit exceeded - max 10 requests per minute'')
                         (JStr ''RATE_LIMIT''))))
         else (let (session2, result) = generate_motion_try cfg e session1 request
               in (AList.update key session2 ss1,
                   case result of Inl x \<Rightarrow> Inl (reraise (exc_str e) x) | Inr r \<Rightarrow> Inr r)))"

text \<open>
  Two observations of a call of \<^verbatim>\<open>generate_motion\<close>: the session after the admission
  check with the verdict of the check, and the motions a registry holds under a session
  identifier (none when there is no such session).
\<close>

definition admission :: "Config \<Rightarrow> env \<Rightarrow> sessions \<Rightarrow> string option \<Rightarrow> UserSession \<times> bool" where
  "admission cfg e ss header =
     check_rate_limit cfg (now_rate e)
       (snd (get_or_create_session ss header (now_session e) (now_factory e) (uuid_session e)))"

definition motions_of :: "sessions \<Rightarrow> string \<Rightarrow> (string, StoredMotion) dict" where
  "motions_of ss k = (case map_of ss k of None \<Rightarrow> [] | Some session \<Rightarrow> motions session)"

datatype summary = Summary string string int rat string string

fun summary_created_at :: "summary \<Rightarrow> string" where
  "summary_created_at (Summary mid nm fc d c p) = c"

text \<open>
  \<^verbatim>\<open>sorted(xs, key=f, reverse=True)\<close> is stable: elements with equal keys keep their order.
\<close>

definition sorted_reverse :: "('a \<Rightarrow> 'b::linorder) \<Rightarrow> 'a list \<Rightarrow> 'a list" where
  "sorted_reverse f xs = rev (sort_key f (rev xs))"

definition list_motions ::
  "datetime \<Rightarrow> sessions \<Rightarrow> string option \<Rightarrow> sessions \<times> summary list \<times> string option" where
  "list_motions now ss header =
     (case find_session ss header of
        None \<Rightarrow> (ss, [], None)
      | Some session \<Rightarrow>
          (let session' = session\<lparr>last_activity := now\<rparr>;
               motions_list =
                 map (\<lambda>(mid, mdata).
                        Summary mid (name mdata) (frame_count mdata) (duration mdata)
                          (motion_created_at mdata) (take 100 (text_prompt mdata)))
                   (motions session')
           in (AList.update (py_or header []) session' ss,
               sorted_reverse summary_created_at motions_list, header)))"

definition get_motion ::
  "datetime \<Rightarrow> sessions \<Rightarrow> string option \<Rightarrow> string \<Rightarrow> sessions \<times> (exn + StoredMotion)" where
  "get_motion now ss header mid =
     (case find_session ss header of
        None \<Rightarrow> (ss, Inl (HTTPException 404 (Detail_str ''Session not found'')))
      | Some session \<Rightarrow>
          (let session' = session\<lparr>last_activity := now\<rparr>;
               ss' = AList.update (py_or header []) session' ss
           in case map_of (motions session') mid of
                None \<Rightarrow> (ss', Inl (HTTPException 404 (Detail_str ''Motion not found'')))
              | Some m \<Rightarrow> (ss', Inr m)))"

definition delete_motion ::
  "sessions \<Rightarrow> string option \<Rightarrow> string \<Rightarrow> sessions \<times> (exn + string)" where
  "delete_motion ss header mid =
     (case find_session ss header of
        None \<Rightarrow> (ss, Inl (HTTPException 404 (Detail_str ''Session not found'')))
      | Some session \<Rightarrow>
          (case map_of (motions session) mid of
             None \<Rightarrow> (ss, Inl (HTTPException 404 (Detail_str ''Motion not found'')))
           | Some m \<Rightarrow>
               (AList.update (py_or header [])
                  (session\<lparr>motions := AList.delete mid (motions session)\<rparr>) ss,
                Inr ''Motion deleted'')))"

definition create_session ::
  "sessions \<Rightarrow> datetime \<Rightarrow> datetime \<Rightarrow> string \<Rightarrow> sessions \<times> string \<times> datetime" where
  "create_session ss now now_window new_uuid =
     (let (ss', session) = get_or_create_session ss None now now_window new_uuid
      in (ss', session_id session, created_at session))"

subsection \<open>Error handlers\<close>

record envelope =
  success :: bool
  error :: json
  code :: json

text \<open>
  \<^verbatim>\<open>http_exception_handler\<close> on the status and the detail of the exception: the response
  status and the content. A dictionary detail of this program has both keys, so the
  defaults of its two \<^verbatim>\<open>get\<close> calls are not used.
\<close>

fun http_exception_handler :: "int \<Rightarrow> detail \<Rightarrow> int \<times> envelope" where
  "http_exception_handler status (Detail_dict e c) =
     (status, \<lparr>success = False, error = e, code = c\<rparr>)"
| "http_exception_handler status (Detail_str d) =
     (status, \<lparr>success = False, error = JStr d, code = JStr ''UNKNOWN''\<rparr>)"

definition general_exception_handler :: "exn \<Rightarrow> int \<times> envelope" where
  "general_exception_handler x =
     (500, \<lparr>success = False, error = JStr ''Internal server error'', code = JStr ''INTERNAL_ERROR''\<rparr>)"

text \<open>The handler the framework picks for an exception that leaves an endpoint.\<close>

fun exception_response :: "exn \<Rightarrow> int \<times> envelope" where
  "exception_response (HTTPException status d) = http_exception_handler status d"
| "exception_response x = general_exception_handler x"

subsection \<open>Concrete inputs\<close>

text \<open>A zero-dimensional array holding a finite number, and a finite number in a list.\<close>

abbreviation num :: "rat \<Rightarrow> ndarray" where
  "num q \<equiv> Scalar (Number (Finite q))"

abbreviation pynum :: "rat \<Rightarrow> pyval" where
  "pynum q \<equiv> PyNum (Finite q)"

definition session0 :: UserSession where
  "session0 = \<lparr>session_id = ''s'', created_at = 0, last_activity = 0, motions = [],
                request_count = 0, request_window_start = 0\<rparr>"

definition Config2 :: Config where
  "Config2 = default_Config\<lparr>MAX_STORED_MOTIONS_PER_USER := 2, MAX_REQUESTS_PER_MINUTE := 2\<rparr>"

definition motion0 :: StoredMotion where
  "motion0 =
     \<lparr>name = ''[AI] wave'', fps = 30, joint_pos = PyList [PyList [pynum 0]],
      root_pos = PyList [PyList [pynum 0, pynum 0, pynum 1]],
      root_quat = PyList [PyList [pynum 1, pynum 0, pynum 0, pynum 0]],
      frame_count = 1, duration = 1 / 30, motion_created_at = ''2024-05-01T10:00:00'',
      motion_id = ''m0'', text_prompt = ''wave'',
      motion_parameters =
        \<lparr>p_motion_length = 4, p_num_inference_steps = 10, p_adaptive_smooth = True,
         p_static_start = True, p_transition_steps = 100\<rparr>\<rparr>"

definition sessions2 :: sessions where
  "sessions2 =
     [(''s'', session0\<lparr>motions := [(''m0'', motion0)]\<rparr>),
      (''t'', session0\<lparr>session_id := ''t'', last_activity := 1200000000\<rparr>)]"

definition motion1 :: StoredMotion where
  "motion1 = motion0\<lparr>motion_created_at := ''2024-05-01T09:59:59.250000'', motion_id := ''m1''\<rparr>"

definition motion2 :: StoredMotion where
  "motion2 = motion0\<lparr>motion_created_at := ''2024-05-01T10:00:07'', motion_id := ''m2''\<rparr>"

definition session_full :: UserSession where
  "session_full = session0\<lparr>motions := [(''m0'', motion0), (''m1'', motion1)]\<rparr>"

text \<open>
  Archives for the codec: a loader that returns the given archive whatever the bytes, and
  the rounding that changes nothing. \<open>npz_negative_fps\<close> has one frame and the frame rate
  -30; \<open>npz_mismatch\<close> has two frames of joint positions, three root positions and one root
  orientation; \<open>npz_two_frames\<close> has two frames of each at the frame rate 30;
  \<open>npz_zero_fps\<close> has the frame rate 0; \<open>npz_no_root_rot\<close> lacks one array;
  \<open>npz_nan_fps\<close> has not-a-number as its frame rate; \<open>npz_text_joint_pos\<close> has joint
  positions that are not numbers.
\<close>

definition load_as :: "npz \<Rightarrow> bytes \<Rightarrow> exn + npz" where
  "load_as data b = Inr data"

definition no_rounding :: "number \<Rightarrow> number" where
  "no_rounding n = n"

definition npz_negative_fps :: npz where
  "npz_negative_fps =
     [(''fps'', Array [num (- 30)]),
      (''joint_pos'', Array [Array [num 0, num 1]]),
      (''root_pos'', Array [Array [num 0, num 0, num 1]]),
      (''root_rot'', Array [Array [num 1, num 0, num 0, num 0]])]"

definition npz_mismatch :: npz where
  "npz_mismatch =
     [(''fps'', Array [num 30]),
      (''joint_pos'', Array [Array [num 0], Array [num 1]]),
      (''root_pos'', Array [Array [num 0, num 0, num 1],
                            Array [num 0, num 0, num 2],
                            Array [num 0, num 0, num 3]]),
      (''root_rot'', Array [Array [num 1, num 0, num 0, num 0]])]"

definition npz_two_frames :: npz where
  "npz_two_frames =
     [(''fps'', Array [num 30]),
      (''joint_pos'', Array [Array [num 0], Array [num 1]]),
      (''root_pos'', Array [Array [num 0, num 0, num 1],
                            Array [num 0, num 0, num 2]]),
      (''root_rot'', Array [Array [num 1, num 0, num 0, num 0],
                            Array [num 1, num 0, num 0, num 0]])]"

definition npz_zero_fps :: npz where
  "npz_zero_fps = AList.update ''fps'' (Array [num 0]) npz_negative_fps"




text \<open>A stand-in for \<^verbatim>\<open>str(e)\<close> of a caught exception.\<close>

definition str0 :: "exn \<Rightarrow> string" where
  "str0 x =
     (case x of
        ZeroDivisionError \<Rightarrow> ''division by zero''
      | AttributeError \<Rightarrow> ''module websockets.exceptions has no attribute ConnectionRefused''
      | _ \<Rightarrow> ''error'')"

text \<open>
  An environment for \<^verbatim>\<open>generate_motion\<close>: the exchange times out, \<^verbatim>\<open>json.loads\<close> knows one
  error object, \<^verbatim>\<open>np.load\<close> reads the archive of two frames.
\<close>

definition error_text :: string where
  \<open>error_text = ''{"error":"bad prompt","code":"INVALID_INPUT"}''\<close>

definition loads0 :: "string \<Rightarrow> json option" where
  "loads0 s =
     (if s = error_text
      then Some (JObj [(''error'', JStr ''bad prompt''), (''code'', JStr ''INVALID_INPUT'')])
      else None)"

definition env0 :: env where
  "env0 =
     \<lparr>now_session = 100, now_factory = 101, uuid_session = ''u1'', now_rate = 102,
      ws_exchange = Raised TimeoutError, loads = loads0,
      now_strftime = ''20240501_100000'', uuid_hex = ''0123456789abcdef'',
      load_npz = load_as npz_two_frames, to_float32 = no_rounding,
      now_isoformat = ''2024-05-01T10:00:00'', exc_str = str0\<rparr>"

definition request0 :: TextToMotionRequest where
  "request0 =
     \<lparr>request_text = ''wave'', motion_length = 4, num_inference_steps = 10, seed = None,
      smooth = None, smooth_window = 5, adaptive_smooth = True, static_start = True,
      static_frames = 2, blend_frames = 8, transition_steps = 100\<rparr>"

definition session_u1 :: UserSession where
  "session_u1 =
     \<lparr>session_id = ''u1'', created_at = 100, last_activity = 100, motions = [],
      request_count = 1, request_window_start = 101\<rparr>"

section \<open>Properties\<close>

subsection \<open>The rate limiter\<close>

lemma check_rate_limit_within:
  "now - request_window_start s \<le> minutes 1 \<Longrightarrow>
   check_rate_limit cfg now s =
     (if request_count s \<ge> MAX_REQUESTS_PER_MINUTE cfg then (s, False)
      else (s\<lparr>request_count := request_count s + 1\<rparr>, True))"
  by (simp add: check_rate_limit_def Let_def)

lemma check_rate_limit_expired:
  "now - request_window_start s > minutes 1 \<Longrightarrow>
   check_rate_limit cfg now s =
     check_rate_limit cfg now (s\<lparr>request_count := 0, request_window_start := now\<rparr>)"
  by (simp add: check_rate_limit_def Let_def minutes_def)

lemma check_rate_limits_within:
  "\<forall>t\<in>set ts. t - request_window_start s \<le> minutes 1 \<Longrightarrow>
   request_count s + int (length ts) \<le> MAX_REQUESTS_PER_MINUTE cfg \<Longrightarrow>
   check_rate_limits cfg ts s =
     (s\<lparr>request_count := request_count s + int (length ts)\<rparr>, replicate (length ts) True)"
proof (induction ts arbitrary: s)
  case Nil
  then show ?case by simp
next
  case (Cons t ts)
  have step: "check_rate_limit cfg t s = (s\<lparr>request_count := request_count s + 1\<rparr>, True)"
    using Cons.prems by (simp add: check_rate_limit_within)
  have "check_rate_limits cfg ts (s\<lparr>request_count := request_count s + 1\<rparr>) =
        (s\<lparr>request_count := request_count s + 1 + int (length ts)\<rparr>, replicate (length ts) True)"
    using Cons.IH [of "s\<lparr>request_count := request_count s + 1\<rparr>"] Cons.prems by simp
  then show ?case using step by (simp add: add.assoc add.commute)
qed

text \<open>
  Claim C3. One admission check at the clock reading \<open>now\<close>: when more than one minute has
  passed since the window start, the check proceeds as on the session with the count reset
  to zero and the window start set to \<open>now\<close>; within the window, a count at or above the
  ceiling is rejected and the session is left as it is, a count below it is incremented by
  one and the request admitted. Consequently, from a count of zero, \<open>N\<close> consecutive checks
  within the window with \<open>N\<close> at most the ceiling are all admitted and leave the count at
  \<open>N\<close>, and when \<open>N\<close> is the ceiling the next check within the window is rejected and
  changes nothing. The ceiling is 10 when the environment does not set it.
\<close>

theorem rate_limit_window:
  "(now - request_window_start s > minutes 1 \<longrightarrow>
      check_rate_limit cfg now s =
        check_rate_limit cfg now (s\<lparr>request_count := 0, request_window_start := now\<rparr>))
   \<and> (now - request_window_start s \<le> minutes 1 \<and> request_count s \<ge> MAX_REQUESTS_PER_MINUTE cfg \<longrightarrow>
      check_rate_limit cfg now s = (s, False))
   \<and> (now - request_window_start s \<le> minutes 1 \<and> request_count s < MAX_REQUESTS_PER_MINUTE cfg \<longrightarrow>
      check_rate_limit cfg now s = (s\<lparr>request_count := request_count s + 1\<rparr>, True))
   \<and> (request_count s = 0 \<and> (\<forall>t\<in>set ts. t - request_window_start s \<le> minutes 1)
        \<and> int (length ts) \<le> MAX_REQUESTS_PER_MINUTE cfg \<longrightarrow>
      snd (check_rate_limits cfg ts s) = replicate (length ts) True
      \<and> request_count (fst (check_rate_limits cfg ts s)) = int (length ts)
      \<and> (int (length ts) = MAX_REQUESTS_PER_MINUTE cfg \<and> now - request_window_start s \<le> minutes 1 \<longrightarrow>
           check_rate_limit cfg now (fst (check_rate_limits cfg ts s)) =
             (fst (check_rate_limits cfg ts s), False)))
   \<and> MAX_REQUESTS_PER_MINUTE default_Config = 10"
proof (intro conjI impI)
  show "MAX_REQUESTS_PER_MINUTE default_Config = 10" by (simp add: default_Config_def)
next
  assume "minutes 1 < now - request_window_start s"
  then show "check_rate_limit cfg now s =
        check_rate_limit cfg now (s\<lparr>request_count := 0, request_window_start := now\<rparr>)"
    by (rule check_rate_limit_expired)
next
  assume "now - request_window_start s \<le> minutes 1 \<and> request_count s \<ge> MAX_REQUESTS_PER_MINUTE cfg"
  then show "check_rate_limit cfg now s = (s, False)" by (simp add: check_rate_limit_within)
next
  assume "now - request_window_start s \<le> minutes 1 \<and> request_count s < MAX_REQUESTS_PER_MINUTE cfg"
  then show "check_rate_limit cfg now s = (s\<lparr>request_count := request_count s + 1\<rparr>, True)"
    by (simp add: check_rate_limit_within)
next
  assume a: "request_count s = 0 \<and> (\<forall>t\<in>set ts. t - request_window_start s \<le> minutes 1)
        \<and> int (length ts) \<le> MAX_REQUESTS_PER_MINUTE cfg"
  then have run: "check_rate_limits cfg ts s =
     (s\<lparr>request_count := int (length ts)\<rparr>, replicate (length ts) True)"
    using check_rate_limits_within [of ts s cfg] by simp
  show "snd (check_rate_limits cfg ts s) = replicate (length ts) True" using run by simp
  show "request_count (fst (check_rate_limits cfg ts s)) = int (length ts)" using run by simp
  assume "int (length ts) = MAX_REQUESTS_PER_MINUTE cfg \<and> now - request_window_start s \<le> minutes 1"
  then show "check_rate_limit cfg now (fst (check_rate_limits cfg ts s)) =
             (fst (check_rate_limits cfg ts s), False)"
    using run by (simp add: check_rate_limit_within)
qed

theorem rate_limit_window_witness:
  "check_rate_limits Config2 [10, 20] session0 = (session0\<lparr>request_count := 2\<rparr>, [True, True])
   \<and> check_rate_limit Config2 30 (session0\<lparr>request_count := 2\<rparr>) = (session0\<lparr>request_count := 2\<rparr>, False)
   \<and> check_rate_limit Config2 30 session0 = (session0\<lparr>request_count := 1\<rparr>, True)
   \<and> check_rate_limit Config2 60000001 (session0\<lparr>request_count := 2\<rparr>) =
        (session0\<lparr>request_count := 1, request_window_start := 60000001\<rparr>, True)"
  using rate_limit_window [of 30 session0 Config2 "[10, 20]"]
        rate_limit_window [of 30 "session0\<lparr>request_count := 2\<rparr>" Config2 "[]"]
        rate_limit_window [of 60000001 "session0\<lparr>request_count := 2\<rparr>" Config2 "[]"]
  by (simp add: session0_def Config2_def default_Config_def minutes_def check_rate_limit_def)

subsection \<open>The session registry\<close>

lemma find_session_Some:
  "k \<noteq> [] \<Longrightarrow> find_session ss (Some k) = map_of ss k"
  by (simp add: find_session_def)

lemma find_session_absent:
  "sid = None \<or> sid = Some [] \<Longrightarrow> find_session ss sid = None"
  by (auto simp: find_session_def)

lemma py_or_Some: "k \<noteq> [] \<Longrightarrow> py_or (Some k) d = k"
  by (simp add: py_or_def)

lemma py_or_absent: "sid = None \<or> sid = Some [] \<Longrightarrow> py_or sid d = d"
  by (auto simp: py_or_def)

text \<open>
  Claim C2, as the code has it. A supplied identifier that is not empty and is a key of the
  registry returns the session stored there with \<^verbatim>\<open>last_activity\<close> set to the clock
  reading, and the registry holds that refreshed session under the same key. A supplied
  identifier that is not empty and is not a key creates a new session under the supplied
  identifier itself. An absent or empty identifier creates a new session under the
  generated identifier. In both creating cases the new session is registered under its
  identifier and returned, and no other entry of the registry changes.
\<close>

theorem get_or_create_session_cases:
  "(sid = Some k \<and> k \<noteq> [] \<and> map_of ss k = Some old \<longrightarrow>
      snd (get_or_create_session ss sid now nw u) = old\<lparr>last_activity := now\<rparr>
      \<and> map_of (fst (get_or_create_session ss sid now nw u)) =
          (map_of ss)(k \<mapsto> old\<lparr>last_activity := now\<rparr>))
   \<and> (sid = Some k \<and> k \<noteq> [] \<and> map_of ss k = None \<longrightarrow>
      snd (get_or_create_session ss sid now nw u) =
        \<lparr>session_id = k, created_at = now, last_activity = now, motions = [],
         request_count = 0, request_window_start = nw\<rparr>
      \<and> map_of (fst (get_or_create_session ss sid now nw u)) =
          (map_of ss)(k \<mapsto> snd (get_or_create_session ss sid now nw u)))
   \<and> (sid = None \<or> sid = Some [] \<longrightarrow>
      snd (get_or_create_session ss sid now nw u) =
        \<lparr>session_id = u, created_at = now, last_activity = now, motions = [],
         request_count = 0, request_window_start = nw\<rparr>
      \<and> map_of (fst (get_or_create_session ss sid now nw u)) =
          (map_of ss)(u \<mapsto> snd (get_or_create_session ss sid now nw u)))"
proof (intro conjI impI)
  assume a: "sid = Some k \<and> k \<noteq> [] \<and> map_of ss k = Some old"
  then have r: "get_or_create_session ss sid now nw u =
      (AList.update k (old\<lparr>last_activity := now\<rparr>) ss, old\<lparr>last_activity := now\<rparr>)"
    by (simp add: get_or_create_session_def find_session_Some py_or_Some Let_def)
  show "snd (get_or_create_session ss sid now nw u) = old\<lparr>last_activity := now\<rparr>"
    using r by simp
  show "map_of (fst (get_or_create_session ss sid now nw u)) =
          (map_of ss)(k \<mapsto> old\<lparr>last_activity := now\<rparr>)"
    using r by (simp add: update_conv')
next
  assume a: "sid = Some k \<and> k \<noteq> [] \<and> map_of ss k = None"
  let ?new = "\<lparr>session_id = k, created_at = now, last_activity = now, motions = [],
         request_count = 0, request_window_start = nw\<rparr>"
  from a have r: "get_or_create_session ss sid now nw u = (AList.update k ?new ss, ?new)"
    by (simp add: get_or_create_session_def find_session_Some py_or_Some Let_def)
  show "snd (get_or_create_session ss sid now nw u) = ?new" using r by simp
  show "map_of (fst (get_or_create_session ss sid now nw u)) =
          (map_of ss)(k \<mapsto> snd (get_or_create_session ss sid now nw u))"
    using r by (simp add: update_conv')
next
  assume a: "sid = None \<or> sid = Some []"
  let ?new = "\<lparr>session_id = u, created_at = now, last_activity = now, motions = [],
         request_count = 0, request_window_start = nw\<rparr>"
  from a have r: "get_or_create_session ss sid now nw u = (AList.update u ?new ss, ?new)"
    by (simp add: get_or_create_session_def find_session_absent py_or_absent Let_def)
  show "snd (get_or_create_session ss sid now nw u) = ?new" using r by simp
  show "map_of (fst (get_or_create_session ss sid now nw u)) =
          (map_of ss)(u \<mapsto> snd (get_or_create_session ss sid now nw u))"
    using r by (simp add: update_conv')
qed

theorem get_or_create_session_cases_witness:
  "get_or_create_session [(''s'', session0)] (Some ''s'') 7 8 ''3f2a'' =
     ([(''s'', session0\<lparr>last_activity := 7\<rparr>)], session0\<lparr>last_activity := 7\<rparr>)
   \<and> map_of (fst (get_or_create_session [(''s'', session0)] (Some ''abc'') 7 8 ''3f2a'')) ''abc'' =
       Some \<lparr>session_id = ''abc'', created_at = 7, last_activity = 7, motions = [],
             request_count = 0, request_window_start = 8\<rparr>
   \<and> map_of (fst (get_or_create_session [(''s'', session0)] None 7 8 ''3f2a'')) ''3f2a'' =
       Some \<lparr>session_id = ''3f2a'', created_at = 7, last_activity = 7, motions = [],
             request_count = 0, request_window_start = 8\<rparr>"
  using get_or_create_session_cases [of "Some ''s''" "''s''" "[(''s'', session0)]" session0 7 8 "''3f2a''"]
        get_or_create_session_cases [of "Some ''abc''" "''abc''" "[(''s'', session0)]" session0 7 8 "''3f2a''"]
        get_or_create_session_cases [of None "''abc''" "[(''s'', session0)]" session0 7 8 "''3f2a''"]
  by (simp add: get_or_create_session_def find_session_def py_or_def Let_def session0_def)

text \<open>
  The claim as written fails for a supplied identifier the registry does not know: the
  new session carries the supplied identifier, not the generated one.
\<close>

theorem get_or_create_session_counterexample:
  "session_id (snd (get_or_create_session [] (Some ''abc'') 5 6 ''3f2a'')) = ''abc''
   \<and> \<not> session_id (snd (get_or_create_session [] (Some ''abc'') 5 6 ''3f2a'')) = ''3f2a''
   \<and> map_of (fst (get_or_create_session [] (Some ''abc'') 5 6 ''3f2a'')) ''3f2a'' = None"
  by (simp add: get_or_create_session_def find_session_def py_or_def Let_def session0_def)

subsection \<open>The expiry sweep\<close>

lemma map_of_fold_delete:
  "map_of (fold AList.delete ks al) k = (if k \<in> set ks then None else map_of al k)"
  by (induction ks arbitrary: al) (auto simp: delete_conv')

lemma is_expired_in_range:
  "- 1439999998560 \<le> DATA_RETENTION_MINUTES cfg \<Longrightarrow> DATA_RETENTION_MINUTES cfg \<le> 1439999999999 \<Longrightarrow>
   is_expired cfg now s =
     Inr (now - last_activity s > minutes (DATA_RETENTION_MINUTES cfg) \<or> now - created_at s > hours 2)"
  by (simp add: is_expired_def timedelta_minutes_def and_then_def Let_def)

lemma is_expired_overflow:
  "DATA_RETENTION_MINUTES cfg < - 1439999998560 \<or> 1439999999999 < DATA_RETENTION_MINUTES cfg \<Longrightarrow>
   is_expired cfg now s = Inl OverflowError"
  by (auto simp: is_expired_def timedelta_minutes_def and_then_def Let_def)

lemma expired_sessions_in_range:
  assumes "- 1439999998560 \<le> DATA_RETENTION_MINUTES cfg"
    and "DATA_RETENTION_MINUTES cfg \<le> 1439999999999"
  shows "expired_sessions cfg now ss =
     Inr (map fst
            (filter (\<lambda>(sid, s). now - last_activity s > minutes (DATA_RETENTION_MINUTES cfg)
                                 \<or> now - created_at s > hours 2) ss))"
proof (induction ss)
  case Nil
  then show ?case by simp
next
  case (Cons p ss)
  obtain sid s where p: "p = (sid, s)" by (cases p)
  show ?case
    using Cons.IH by (simp add: p is_expired_in_range [OF assms] and_then_def)
qed

lemma expired_sessions_iff:
  assumes "distinct (map fst ss)"
  shows "k \<in> set (map fst
            (filter (\<lambda>(sid, s). now - last_activity s > minutes m \<or> now - created_at s > hours 2) ss))
     \<longleftrightarrow> (\<exists>s. map_of ss k = Some s
              \<and> (now - last_activity s > minutes m \<or> now - created_at s > hours 2))"
  using assms by (auto simp: image_iff)

lemma cleanup_in_range:
  assumes "- 1439999998560 \<le> DATA_RETENTION_MINUTES cfg"
    and "DATA_RETENTION_MINUTES cfg \<le> 1439999999999"
  shows "cleanup_expired_sessions cfg now ss =
     Inr (fold AList.delete
            (map fst
               (filter (\<lambda>(sid, s). now - last_activity s > minutes (DATA_RETENTION_MINUTES cfg)
                                    \<or> now - created_at s > hours 2) ss)) ss)"
  by (simp add: cleanup_expired_sessions_def expired_sessions_in_range [OF assms] and_then_def)

text \<open>
  Outside the range of \<^verbatim>\<open>timedelta\<close> the sweep of a registry that is not empty raises and
  removes nothing.
\<close>

lemma cleanup_overflow:
  assumes "DATA_RETENTION_MINUTES cfg < - 1439999998560 \<or> 1439999999999 < DATA_RETENTION_MINUTES cfg"
    and "ss \<noteq> []"
  shows "cleanup_expired_sessions cfg now ss = Inl OverflowError"
proof -
  obtain sid s rest where ss: "ss = (sid, s) # rest" using assms(2) by (cases ss) auto
  show ?thesis
    by (simp add: cleanup_expired_sessions_def ss is_expired_overflow [OF assms(1)] and_then_def)
qed

text \<open>
  Claim C5, for a retention window that \<^verbatim>\<open>timedelta(minutes=...)\<close> accepts. The sweep at the
  clock reading \<open>now\<close> returns, and it removes exactly the sessions that have been idle for
  more than the retention window or that are older than two hours, and leaves every other
  session as it is. After the sweep, \<^verbatim>\<open>get_motion\<close> under the identifier of a removed
  session answers 404, session not found, whatever motion is asked for. The retention
  window is 30 minutes when the environment does not set it.
\<close>

theorem expiry_sweep:
  assumes "distinct (map fst ss)"
    and "- 1439999998560 \<le> DATA_RETENTION_MINUTES cfg"
    and "DATA_RETENTION_MINUTES cfg \<le> 1439999999999"
  shows "\<exists>ss'. cleanup_expired_sessions cfg now ss = Inr ss'
         \<and> map_of ss' sid =
             (case map_of ss sid of None \<Rightarrow> None
              | Some s \<Rightarrow>
                  if now - last_activity s > minutes (DATA_RETENTION_MINUTES cfg)
                     \<or> now - created_at s > hours 2
                  then None else Some s)
         \<and> (map_of ss sid = Some s
              \<and> (now - last_activity s > minutes (DATA_RETENTION_MINUTES cfg)
                  \<or> now - created_at s > hours 2) \<longrightarrow>
             get_motion now' ss' (Some sid) mid =
               (ss', Inl (HTTPException 404 (Detail_str ''Session not found''))))
         \<and> DATA_RETENTION_MINUTES default_Config = 30"
proof -
  let ?ids = "map fst
               (filter (\<lambda>(sid, s). now - last_activity s > minutes (DATA_RETENTION_MINUTES cfg)
                                    \<or> now - created_at s > hours 2) ss)"
  let ?ss' = "fold AList.delete ?ids ss"
  have c: "cleanup_expired_sessions cfg now ss = Inr ?ss'"
    by (rule cleanup_in_range [OF assms(2,3)])
  have sweep: "map_of ?ss' sid =
             (case map_of ss sid of None \<Rightarrow> None
              | Some s \<Rightarrow>
                  if now - last_activity s > minutes (DATA_RETENTION_MINUTES cfg)
                     \<or> now - created_at s > hours 2
                  then None else Some s)"
    using expired_sessions_iff [OF assms(1), where k = sid and now = now
            and m = "DATA_RETENTION_MINUTES cfg"]
    by (auto simp: map_of_fold_delete split: option.splits)
  have gone: "map_of ss sid = Some s
              \<and> (now - last_activity s > minutes (DATA_RETENTION_MINUTES cfg)
                  \<or> now - created_at s > hours 2) \<longrightarrow>
             get_motion now' ?ss' (Some sid) mid =
               (?ss', Inl (HTTPException 404 (Detail_str ''Session not found'')))"
  proof
    assume "map_of ss sid = Some s
              \<and> (now - last_activity s > minutes (DATA_RETENTION_MINUTES cfg)
                  \<or> now - created_at s > hours 2)"
    then have "map_of ?ss' sid = None" using sweep by auto
    then have "find_session ?ss' (Some sid) = None" by (simp add: find_session_def)
    then show "get_motion now' ?ss' (Some sid) mid =
               (?ss', Inl (HTTPException 404 (Detail_str ''Session not found'')))"
      by (simp add: get_motion_def)
  qed
  have "DATA_RETENTION_MINUTES default_Config = 30" by (simp add: default_Config_def)
  then show ?thesis using c sweep gone by blast
qed

theorem expiry_sweep_witness:
  "cleanup_expired_sessions default_Config 1860000000 sessions2 =
     Inr [(''t'', session0\<lparr>session_id := ''t'', last_activity := 1200000000\<rparr>)]
   \<and> get_motion 1860000001 [(''t'', session0\<lparr>session_id := ''t'', last_activity := 1200000000\<rparr>)]
        (Some ''s'') ''m0'' =
       ([(''t'', session0\<lparr>session_id := ''t'', last_activity := 1200000000\<rparr>)],
        Inl (HTTPException 404 (Detail_str ''Session not found'')))
   \<and> get_motion 5 sessions2 (Some ''s'') ''m0'' =
       (AList.update ''s'' (session0\<lparr>motions := [(''m0'', motion0)], last_activity := 5\<rparr>) sessions2,
        Inr motion0)"
proof -
  have d: "distinct (map fst sessions2)" by (simp add: sessions2_def)
  have lo: "- 1439999998560 \<le> DATA_RETENTION_MINUTES default_Config"
    and hi: "DATA_RETENTION_MINUTES default_Config \<le> 1439999999999"
    by (simp_all add: default_Config_def)
  have c: "cleanup_expired_sessions default_Config 1860000000 sessions2 =
     Inr [(''t'', session0\<lparr>session_id := ''t'', last_activity := 1200000000\<rparr>)]"
    by (simp add: cleanup_expired_sessions_def is_expired_def timedelta_minutes_def and_then_def
        sessions2_def session0_def default_Config_def minutes_def hours_def Let_def)
  show ?thesis
    using expiry_sweep [OF d lo hi, of 1860000000 "''s''"
        "session0\<lparr>motions := [(''m0'', motion0)]\<rparr>" 1860000001 "''m0''"]
    by (simp add: c)
      (simp add: get_motion_def find_session_def py_or_def sessions2_def session0_def Let_def)
qed

subsection \<open>Refreshing the last activity\<close>

text \<open>
  Claim C9 at a registry whose session \<open>s\<close> was last active at 0 and holds the motion
  \<open>m0\<close>: \<^verbatim>\<open>delete_motion\<close> removes the motion and leaves \<^verbatim>\<open>last_activity\<close> at 0, where
  \<^verbatim>\<open>get_motion\<close> and \<^verbatim>\<open>list_motions\<close> at the clock reading 5 set it to 5.
\<close>

theorem delete_motion_last_activity:
  "snd (delete_motion sessions2 (Some ''s'') ''m0'') = Inr ''Motion deleted''
   \<and> map_of (fst (delete_motion sessions2 (Some ''s'') ''m0'')) ''s'' = Some session0
   \<and> last_activity session0 = 0
   \<and> map_option last_activity (map_of (fst (get_motion 5 sessions2 (Some ''s'') ''m0'')) ''s'') = Some 5
   \<and> map_option last_activity (map_of (fst (list_motions 5 sessions2 (Some ''s''))) ''s'') = Some 5"
  by (simp add: delete_motion_def get_motion_def list_motions_def find_session_def py_or_def
      sessions2_def session0_def Let_def)

subsection \<open>The motion store\<close>

lemma fold_min_mem:
  "fold (\<lambda>y best. if f y < f best then y else best) xs b \<in> insert b (set xs)"
  by (induction xs arbitrary: b) auto

lemma fold_min_le_init:
  "f (fold (\<lambda>y best. if f y < f best then y else best) xs b) \<le> (f b :: 'b::linorder)"
proof (induction xs arbitrary: b)
  case Nil
  then show ?case by simp
next
  case (Cons x xs)
  have "f (fold (\<lambda>y best. if f y < f best then y else best) xs (if f x < f b then x else b))
        \<le> f (if f x < f b then x else b)"
    by (rule Cons.IH)
  also have "\<dots> \<le> f b" by auto
  finally show ?case by simp
qed

lemma fold_min_le_elem:
  "z \<in> set xs \<Longrightarrow>
   f (fold (\<lambda>y best. if f y < f best then y else best) xs b) \<le> (f z :: 'b::linorder)"
proof (induction xs arbitrary: b)
  case Nil
  then show ?case by simp
next
  case (Cons x xs)
  show ?case
  proof (cases "z \<in> set xs")
    case True
    then show ?thesis using Cons.IH by simp
  next
    case False
    then have zx: "z = x" using Cons.prems by simp
    have "f (fold (\<lambda>y best. if f y < f best then y else best) xs (if f x < f b then x else b))
          \<le> f (if f x < f b then x else b)"
      by (rule fold_min_le_init)
    also have "\<dots> \<le> f x" by auto
    finally show ?thesis using zx by simp
  qed
qed

lemma py_min_least:
  assumes "xs \<noteq> []"
  shows "\<exists>y. py_min f xs = Inr y \<and> y \<in> set xs \<and> (\<forall>z\<in>set xs. f y \<le> (f z :: 'b::linorder))"
proof -
  obtain x rest where xs: "xs = x # rest" using assms by (cases xs) auto
  let ?y = "fold (\<lambda>y best. if f y < f best then y else best) rest x"
  have "py_min f xs = Inr ?y" by (simp add: xs)
  moreover have "?y \<in> set xs" using fold_min_mem [of f rest x] by (simp add: xs)
  moreover have "\<forall>z\<in>set xs. f ?y \<le> f z"
    using fold_min_le_init [of f rest x] fold_min_le_elem [of _ rest f x] by (auto simp: xs)
  ultimately show ?thesis by blast
qed

lemma length_delete_less:
  "k \<in> fst ` set al \<Longrightarrow> length (AList.delete k al) < length al"
  by (auto simp: AList.delete_eq intro!: length_filter_less)

lemma length_delete_distinct:
  "distinct (map fst al) \<Longrightarrow> k \<in> fst ` set al \<Longrightarrow> length (AList.delete k al) = length al - 1"
proof -
  assume d: "distinct (map fst al)" and k: "k \<in> fst ` set al"
  have "length (AList.delete k al) = length (map fst (AList.delete k al))" by simp
  also have "\<dots> = length (removeAll k (map fst al))" by (simp only: delete_keys)
  also have "\<dots> = length (remove1 k (map fst al))"
    using d by (simp add: distinct_remove1_removeAll)
  also have "\<dots> = length (map fst al) - 1" using k by (simp add: length_remove1)
  finally show ?thesis by simp
qed

lemma length_update_le: "length (AList.update k v al) \<le> Suc (length al)"
  by (induction al) auto


lemma enforce_motion_limit_below:
  "int (length (motions s)) < MAX_STORED_MOTIONS_PER_USER cfg \<Longrightarrow> enforce_motion_limit cfg s = Inr s"
  by (simp add: enforce_motion_limit_def)

lemma enforce_motion_limit_empty:
  "int (length (motions s)) \<ge> MAX_STORED_MOTIONS_PER_USER cfg \<Longrightarrow> motions s = [] \<Longrightarrow>
   enforce_motion_limit cfg s = Inl ValueError"
  by (simp add: enforce_motion_limit_def)

lemma enforce_motion_limit_full:
  assumes full: "int (length (motions s)) \<ge> MAX_STORED_MOTIONS_PER_USER cfg"
    and ne: "motions s \<noteq> []"
  shows "\<exists>oldest_id oldest.
           enforce_motion_limit cfg s = Inr (s\<lparr>motions := AList.delete oldest_id (motions s)\<rparr>)
         \<and> oldest_id \<in> fst ` set (motions s)
         \<and> created_at_key (motions s) oldest_id = motion_created_at oldest
         \<and> map_of (motions s) oldest_id = Some oldest
         \<and> (\<forall>k m. map_of (motions s) k = Some m \<longrightarrow>
               motion_created_at oldest \<le> motion_created_at m)"
proof -
  let ?ms = "motions s"
  have "map fst ?ms \<noteq> []" using ne by simp
  then obtain y where y: "py_min (created_at_key ?ms) (map fst ?ms) = Inr y"
      "y \<in> set (map fst ?ms)"
      "\<forall>z\<in>set (map fst ?ms). created_at_key ?ms y \<le> created_at_key ?ms z"
    using py_min_least [of "map fst ?ms" "created_at_key ?ms"] by blast
  from y(2) obtain oldest where o: "map_of ?ms y = Some oldest"
    by (metis image_set map_of_eq_None_iff not_Some_eq)
  have key_y: "created_at_key ?ms y = motion_created_at oldest"
    using o by (simp add: created_at_key_def)
  have least: "\<forall>k m. map_of ?ms k = Some m \<longrightarrow> motion_created_at oldest \<le> motion_created_at m"
  proof (intro allI impI)
    fix k m assume km: "map_of ?ms k = Some m"
    then have "k \<in> set (map fst ?ms)"
      by (metis image_set map_of_eq_None_iff option.distinct(1))
    then have "created_at_key ?ms y \<le> created_at_key ?ms k" using y(3) by blast
    then show "motion_created_at oldest \<le> motion_created_at m"
      using key_y km by (simp add: created_at_key_def)
  qed
  have "enforce_motion_limit cfg s = Inr (s\<lparr>motions := AList.delete y ?ms\<rparr>)"
    using full y(1) by (simp add: enforce_motion_limit_def)
  then show ?thesis using y(2) o key_y least by auto
qed

lemma store_motion_length:
  assumes K: "0 \<le> MAX_STORED_MOTIONS_PER_USER cfg"
    and le: "int (length (motions s)) \<le> MAX_STORED_MOTIONS_PER_USER cfg"
    and st: "store_motion cfg mid md s = Inr s'"
  shows "int (length (motions s')) \<le> MAX_STORED_MOTIONS_PER_USER cfg"
proof (cases "int (length (motions s)) < MAX_STORED_MOTIONS_PER_USER cfg")
  case True
  then have "s' = s\<lparr>motions := AList.update mid md (motions s)\<rparr>"
    using st by (simp add: store_motion_def and_then_def enforce_motion_limit_below)
  then show ?thesis using True length_update_le [of mid md "motions s"] by simp
next
  case False
  then have full: "int (length (motions s)) \<ge> MAX_STORED_MOTIONS_PER_USER cfg" by simp
  have ne: "motions s \<noteq> []"
    using st enforce_motion_limit_empty [OF full]
    by (auto simp: store_motion_def and_then_def)
  obtain oid where e: "enforce_motion_limit cfg s = Inr (s\<lparr>motions := AList.delete oid (motions s)\<rparr>)"
    and mem: "oid \<in> fst ` set (motions s)"
    using enforce_motion_limit_full [OF full ne] by blast
  have "s' = s\<lparr>motions := AList.update mid md (AList.delete oid (motions s))\<rparr>"
    using st e by (simp add: store_motion_def and_then_def)
  then show ?thesis
    using length_delete_less [OF mem] length_update_le [of mid md "AList.delete oid (motions s)"] le
    by simp
qed

lemma store_motions_length:
  "0 \<le> MAX_STORED_MOTIONS_PER_USER cfg \<Longrightarrow>
   int (length (motions s)) \<le> MAX_STORED_MOTIONS_PER_USER cfg \<Longrightarrow>
   int (length (motions (store_motions cfg ins s))) \<le> MAX_STORED_MOTIONS_PER_USER cfg"
proof (induction ins arbitrary: s)
  case Nil
  then show ?case by simp
next
  case (Cons a ins)
  obtain mid md where a: "a = (mid, md)" by (cases a)
  show ?case
  proof (cases "store_motion cfg mid md s")
    case (Inl x)
    then show ?thesis using Cons a by simp
  next
    case (Inr s')
    then have "int (length (motions s')) \<le> MAX_STORED_MOTIONS_PER_USER cfg"
      using store_motion_length Cons.prems by blast
    then show ?thesis using Cons.IH [of s'] Cons.prems(1) Inr a by simp
  qed
qed

text \<open>
  Claim C4, for a maximum \<open>K\<close> that is not negative. A store that holds at most \<open>K\<close> records
  holds at most \<open>K\<close> records after any sequence of inserts. An insert into a store that is
  not empty and holds \<open>K\<close> records or more first evicts one record: its \<^verbatim>\<open>created_at\<close> is
  the least among the records present before the insert (the strings are compared as
  Python compares them), the store loses that one entry and no other, and the new record is
  then stored. Below \<open>K\<close> nothing is evicted. \<open>K\<close> is 10 when the environment does not set it.
\<close>

theorem motion_store_bounded:
  "(0 \<le> MAX_STORED_MOTIONS_PER_USER cfg
      \<and> int (length (motions s)) \<le> MAX_STORED_MOTIONS_PER_USER cfg \<longrightarrow>
      int (length (motions (store_motions cfg ins s))) \<le> MAX_STORED_MOTIONS_PER_USER cfg)
   \<and> (int (length (motions s)) \<ge> MAX_STORED_MOTIONS_PER_USER cfg \<and> motions s \<noteq> []
        \<and> distinct (map fst (motions s)) \<longrightarrow>
      (\<exists>oldest_id oldest.
          map_of (motions s) oldest_id = Some oldest
        \<and> (\<forall>k m. map_of (motions s) k = Some m \<longrightarrow>
              motion_created_at oldest \<le> motion_created_at m)
        \<and> enforce_motion_limit cfg s = Inr (s\<lparr>motions := AList.delete oldest_id (motions s)\<rparr>)
        \<and> length (AList.delete oldest_id (motions s)) = length (motions s) - 1
        \<and> map_of (AList.delete oldest_id (motions s)) = (map_of (motions s))(oldest_id := None)
        \<and> store_motion cfg mid md s =
            Inr (s\<lparr>motions := AList.update mid md (AList.delete oldest_id (motions s))\<rparr>)))
   \<and> (int (length (motions s)) < MAX_STORED_MOTIONS_PER_USER cfg \<longrightarrow>
        store_motion cfg mid md s = Inr (s\<lparr>motions := AList.update mid md (motions s)\<rparr>))
   \<and> MAX_STORED_MOTIONS_PER_USER default_Config = 10"
proof (intro conjI impI)
  assume "0 \<le> MAX_STORED_MOTIONS_PER_USER cfg
      \<and> int (length (motions s)) \<le> MAX_STORED_MOTIONS_PER_USER cfg"
  then show "int (length (motions (store_motions cfg ins s))) \<le> MAX_STORED_MOTIONS_PER_USER cfg"
    by (simp add: store_motions_length)
next
  assume a: "int (length (motions s)) \<ge> MAX_STORED_MOTIONS_PER_USER cfg \<and> motions s \<noteq> []
        \<and> distinct (map fst (motions s))"
  then obtain oid oldest where
    e: "enforce_motion_limit cfg s = Inr (s\<lparr>motions := AList.delete oid (motions s)\<rparr>)"
    and mem: "oid \<in> fst ` set (motions s)"
    and o: "map_of (motions s) oid = Some oldest"
    and least: "\<forall>k m. map_of (motions s) k = Some m \<longrightarrow>
               motion_created_at oldest \<le> motion_created_at m"
    using enforce_motion_limit_full [of cfg s] by blast
  have len: "length (AList.delete oid (motions s)) = length (motions s) - 1"
    using a mem by (simp add: length_delete_distinct)
  have st: "store_motion cfg mid md s =
            Inr (s\<lparr>motions := AList.update mid md (AList.delete oid (motions s))\<rparr>)"
    using e by (simp add: store_motion_def and_then_def)
  show "\<exists>oldest_id oldest.
          map_of (motions s) oldest_id = Some oldest
        \<and> (\<forall>k m. map_of (motions s) k = Some m \<longrightarrow>
              motion_created_at oldest \<le> motion_created_at m)
        \<and> enforce_motion_limit cfg s = Inr (s\<lparr>motions := AList.delete oldest_id (motions s)\<rparr>)
        \<and> length (AList.delete oldest_id (motions s)) = length (motions s) - 1
        \<and> map_of (AList.delete oldest_id (motions s)) = (map_of (motions s))(oldest_id := None)
        \<and> store_motion cfg mid md s =
            Inr (s\<lparr>motions := AList.update mid md (AList.delete oldest_id (motions s))\<rparr>)"
    using o least e len st delete_conv' [of oid "motions s"] by blast
next
  assume "int (length (motions s)) < MAX_STORED_MOTIONS_PER_USER cfg"
  then show "store_motion cfg mid md s = Inr (s\<lparr>motions := AList.update mid md (motions s)\<rparr>)"
    by (simp add: store_motion_def and_then_def enforce_motion_limit_below)
next
  show "MAX_STORED_MOTIONS_PER_USER default_Config = 10" by (simp add: default_Config_def)
qed

lemma created_at_order:
  "motion_created_at motion1 < motion_created_at motion0"
  "motion_created_at motion0 < motion_created_at motion2"
  by (simp_all add: motion0_def motion1_def motion2_def)

theorem motion_store_bounded_witness:
  "enforce_motion_limit Config2 session_full = Inr (session0\<lparr>motions := [(''m0'', motion0)]\<rparr>)
   \<and> store_motion Config2 ''m2'' motion2 session_full =
       Inr (session0\<lparr>motions := [(''m0'', motion0), (''m2'', motion2)]\<rparr>)
   \<and> store_motion Config2 ''m0'' motion0 session0 = Inr (session0\<lparr>motions := [(''m0'', motion0)]\<rparr>)
   \<and> store_motions Config2 [(''m0'', motion0), (''m1'', motion1), (''m2'', motion2)] session0 =
       session0\<lparr>motions := [(''m0'', motion0), (''m2'', motion2)]\<rparr>"
  using motion_store_bounded [of Config2 session0
          "[(''m0'', motion0), (''m1'', motion1), (''m2'', motion2)]" "''m0''" motion0]
        motion_store_bounded [of Config2 session_full "[]" "''m2''" motion2]
        created_at_order
  by (simp add: store_motion_def enforce_motion_limit_def and_then_def created_at_key_def
      session_full_def session0_def Config2_def default_Config_def)

subsection \<open>The motion codec\<close>

lemma and_then_assoc: "and_then (and_then r f) g = and_then r (\<lambda>x. and_then (f x) g)"
  by (cases r) (simp_all add: and_then_def)

lemma has_object_not_numeric: "has_object a \<Longrightarrow> \<not> numeric a"
  by (induction a) (auto simp: list_all_iff list_ex_iff)

lemma shape0_rounded: "shape0 (rounded f a) = shape0 a"
  by (cases a) (simp_all add: shape0_def)

lemma py_len_tolist_rounded:
  "py_len (tolist (rounded f a)) = (case a of Scalar i \<Rightarrow> None | Array xs \<Rightarrow> Some (length xs))"
  by (cases a) (simp_all add: py_len_def split: item.splits)

lemma getitem_astype:
  "and_then (npz_getitem data k) (astype f) =
     (case map_of data k of
        None \<Rightarrow> Inl (KeyError k)
      | Some a \<Rightarrow> if numeric a then Inr (rounded f a) else Inl ValueError)"
  by (auto simp: and_then_def npz_getitem_def astype_def split: option.splits
      dest: has_object_not_numeric)



lemma convert_unfold:
  assumes "np_load b = Inr data"
  shows "convert_npz_to_motion_data np_load f32 stamp b nm =
     (case map_of data ''fps'' of None \<Rightarrow> Inl (KeyError ''fps'') | Some a \<Rightarrow>
      if has_object a then Inl ValueError else
      (case and_then (getitem0 a) py_int of Inl x \<Rightarrow> Inl x | Inr n \<Rightarrow>
      (case map_of data ''joint_pos'' of None \<Rightarrow> Inl (KeyError ''joint_pos'') | Some jp \<Rightarrow>
      if \<not> numeric jp then Inl ValueError else
      (case map_of data ''root_pos'' of None \<Rightarrow> Inl (KeyError ''root_pos'') | Some rp \<Rightarrow>
      if \<not> numeric rp then Inl ValueError else
      (case map_of data ''root_rot'' of None \<Rightarrow> Inl (KeyError ''root_rot'') | Some rr \<Rightarrow>
      if \<not> numeric rr then Inl ValueError else
      (case jp of Scalar i \<Rightarrow> Inl IndexError | Array js \<Rightarrow>
         if n = 0 then Inl ZeroDivisionError
         else Inr \<lparr>name = nm, fps = of_int n,
                 joint_pos = tolist (rounded f32 jp),
                 root_pos = tolist (rounded f32 rp),
                 root_quat = tolist (rounded f32 rr),
                 frame_count = int (length js),
                 duration = of_int (int (length js)) / of_int n,
                 motion_created_at = stamp\<rparr>))))))"
proof -
  have "convert_npz_to_motion_data np_load f32 stamp b nm =
     and_then (npz_getitem data ''fps'') (\<lambda>fps_arr.
     and_then (and_then (getitem0 fps_arr) py_int) (\<lambda>fps_int.
     and_then (and_then (npz_getitem data ''joint_pos'') (astype f32)) (\<lambda>jp32.
     and_then (and_then (npz_getitem data ''root_pos'') (astype f32)) (\<lambda>rp32.
     and_then (and_then (npz_getitem data ''root_rot'') (astype f32)) (\<lambda>rr32.
     and_then (shape0 jp32) (\<lambda>n.
       if fps_int = 0 then Inl ZeroDivisionError
       else Inr \<lparr>name = nm, fps = of_int fps_int,
                 joint_pos = tolist jp32,
                 root_pos = tolist rp32,
                 root_quat = tolist rr32,
                 frame_count = n,
                 duration = of_int n / of_int fps_int,
                 motion_created_at = stamp\<rparr>))))))"
    using assms
    by (simp add: convert_npz_to_motion_data_def and_then_assoc) (simp add: and_then_def)
  then show ?thesis
    unfolding getitem_astype
    by (cases "map_of data ''fps''"; cases "map_of data ''joint_pos''";
        cases "map_of data ''root_pos''"; cases "map_of data ''root_rot''")
      (auto simp: and_then_def npz_getitem_def shape0_rounded shape0_def
        split: sum.splits ndarray.splits)
qed




lemma load_as_eq: "load_as data b = Inr data"
  by (simp add: load_as_def)




text \<open>
  Claim C8, as the code has it. A record the codec returns has the leading dimension \<open>F\<close>
  of \<^verbatim>\<open>joint_pos\<close> as its frame count, the quotient of the frame count and the frame rate
  as its duration (the exact quotient; Python rounds it to a double), and exactly \<open>F\<close> joint
  position frames. Its root positions and root orientations have as many elements as the
  leading dimensions of their own arrays (none when the array has no dimension), hence
  exactly \<open>F\<close> when those leading dimensions agree with that of \<^verbatim>\<open>joint_pos\<close>.
\<close>

theorem convert_npz_record:
  assumes load: "np_load b = Inr data"
    and conv: "convert_npz_to_motion_data np_load f32 stamp b nm = Inr r"
  shows "\<exists>js rp rr.
           map_of data ''joint_pos'' = Some (Array js)
         \<and> map_of data ''root_pos'' = Some rp \<and> map_of data ''root_rot'' = Some rr
         \<and> frame_count r = int (length js)
         \<and> fps r \<noteq> 0 \<and> duration r = of_int (frame_count r) / fps r
         \<and> py_len (joint_pos r) = Some (length js)
         \<and> py_len (root_pos r) = (case rp of Scalar q \<Rightarrow> None | Array xs \<Rightarrow> Some (length xs))
         \<and> py_len (root_quat r) = (case rr of Scalar q \<Rightarrow> None | Array xs \<Rightarrow> Some (length xs))
         \<and> (shape0 rp = Inr (frame_count r) \<and> shape0 rr = Inr (frame_count r) \<longrightarrow>
              py_len (root_pos r) = Some (length js) \<and> py_len (root_quat r) = Some (length js))"
  using conv unfolding convert_unfold [where np_load = np_load and b = b, OF load]
  by (cases "map_of data ''fps''"; cases "map_of data ''joint_pos''";
      cases "map_of data ''root_pos''"; cases "map_of data ''root_rot''")
    (auto simp: py_len_def shape0_def
      split: sum.splits ndarray.splits item.splits if_splits)

theorem convert_npz_record_witness:
  "convert_npz_to_motion_data (load_as npz_two_frames) no_rounding ''2024-05-01T10:00:00''
     [] ''[AI] wave'' =
   Inr \<lparr>name = ''[AI] wave'', fps = 30,
        joint_pos = PyList [PyList [pynum 0], PyList [pynum 1]],
        root_pos = PyList [PyList [pynum 0, pynum 0, pynum 1],
                           PyList [pynum 0, pynum 0, pynum 2]],
        root_quat = PyList [PyList [pynum 1, pynum 0, pynum 0, pynum 0],
                            PyList [pynum 1, pynum 0, pynum 0, pynum 0]],
        frame_count = 2, duration = 2 / 30,
        motion_created_at = ''2024-05-01T10:00:00''\<rparr>
   \<and> py_len (PyList [PyList [pynum 0], PyList [pynum 1]]) = Some 2
   \<and> py_len (PyList [PyList [pynum 0, pynum 0, pynum 1],
                      PyList [pynum 0, pynum 0, pynum 2]]) = Some 2
   \<and> py_len (PyList [PyList [pynum 1, pynum 0, pynum 0, pynum 0],
                      PyList [pynum 1, pynum 0, pynum 0, pynum 0]]) = Some 2"
proof -
  have c: "convert_npz_to_motion_data (load_as npz_two_frames) no_rounding ''2024-05-01T10:00:00''
     [] ''[AI] wave'' =
   Inr \<lparr>name = ''[AI] wave'', fps = 30,
        joint_pos = PyList [PyList [pynum 0], PyList [pynum 1]],
        root_pos = PyList [PyList [pynum 0, pynum 0, pynum 1],
                           PyList [pynum 0, pynum 0, pynum 2]],
        root_quat = PyList [PyList [pynum 1, pynum 0, pynum 0, pynum 0],
                            PyList [pynum 1, pynum 0, pynum 0, pynum 0]],
        frame_count = 2, duration = 2 / 30,
        motion_created_at = ''2024-05-01T10:00:00''\<rparr>"
    by (simp add: convert_npz_to_motion_data_def and_then_def load_as_def no_rounding_def
        npz_two_frames_def npz_getitem_def getitem0_def astype_def trunc_def shape0_def)
  show ?thesis
    using convert_npz_record [where np_load = "load_as npz_two_frames" and b = "[]",
            OF load_as_eq c]
    by (simp add: c py_len_def)
qed

text \<open>
  The claim as written fails at an archive with two joint position frames, three root
  positions and one root orientation: the codec returns a record with the frame count 2
  whose root sequences have 3 and 1 elements.
\<close>

theorem convert_npz_record_counterexample:
  "convert_npz_to_motion_data (load_as npz_mismatch) no_rounding ''2024-05-01T10:00:00''
     [] ''[AI] wave'' =
   Inr \<lparr>name = ''[AI] wave'', fps = 30,
        joint_pos = PyList [PyList [pynum 0], PyList [pynum 1]],
        root_pos = PyList [PyList [pynum 0, pynum 0, pynum 1],
                           PyList [pynum 0, pynum 0, pynum 2],
                           PyList [pynum 0, pynum 0, pynum 3]],
        root_quat = PyList [PyList [pynum 1, pynum 0, pynum 0, pynum 0]],
        frame_count = 2, duration = 1 / 15,
        motion_created_at = ''2024-05-01T10:00:00''\<rparr>
   \<and> py_len (PyList [PyList [pynum 0, pynum 0, pynum 1],
                      PyList [pynum 0, pynum 0, pynum 2],
                      PyList [pynum 0, pynum 0, pynum 3]]) = Some 3
   \<and> py_len (PyList [PyList [pynum 1, pynum 0, pynum 0, pynum 0]]) = Some 1"
  by (simp add: convert_npz_to_motion_data_def and_then_def load_as_def no_rounding_def
      npz_mismatch_def npz_getitem_def getitem0_def astype_def trunc_def shape0_def py_len_def)

subsection \<open>The generation request\<close>

lemma get_or_create_session_key:
  "get_or_create_session ss sid now nw u =
     (AList.update (py_or sid u) (snd (get_or_create_session ss sid now nw u)) ss,
      snd (get_or_create_session ss sid now nw u))"
  by (auto simp: get_or_create_session_def find_session_def py_or_def Let_def
      split: option.splits if_splits)

lemma get_or_create_session_motions:
  "set (motions (snd (get_or_create_session ss sid now nw u))) \<subseteq> set (motions_of ss (py_or sid u))"
  by (auto simp: get_or_create_session_def find_session_def py_or_def Let_def motions_of_def
      split: option.splits if_splits)

lemma check_rate_limit_motions: "motions (fst (check_rate_limit cfg now s)) = motions s"
  by (simp add: check_rate_limit_def Let_def)

lemma admission_motions:
  "set (motions (fst (admission cfg e ss header))) \<subseteq> set (motions_of ss (py_or header (uuid_session e)))"
  unfolding admission_def check_rate_limit_motions by (rule get_or_create_session_motions)

lemma generate_motion_unfold:
  "generate_motion cfg e ss header request =
     (if \<not> snd (admission cfg e ss header)
      then (AList.update (py_or header (uuid_session e)) (fst (admission cfg e ss header)) ss,
            Inl (HTTPException 429
                   (Detail_dict (JStr ''Rate limit exceeded - max 10 requests per minute'')
                      (JStr ''RATE_LIMIT''))))
      else (AList.update (py_or header (uuid_session e))
              (fst (generate_motion_try cfg e (fst (admission cfg e ss header)) request)) ss,
            case snd (generate_motion_try cfg e (fst (admission cfg e ss header)) request) of
              Inl x \<Rightarrow> Inl (reraise (exc_str e) x) | Inr r \<Rightarrow> Inr r))"
proof -
  obtain ss1 session where gc:
    "get_or_create_session ss header (now_session e) (now_factory e) (uuid_session e) = (ss1, session)"
    by (cases "get_or_create_session ss header (now_session e) (now_factory e) (uuid_session e)")
  have ss1: "ss1 = AList.update (py_or header (uuid_session e)) session ss"
    using get_or_create_session_key [of ss header "now_session e" "now_factory e" "uuid_session e"] gc
    by simp
  show ?thesis
    by (simp add: generate_motion_def admission_def gc ss1 Let_def split: prod.splits)
qed

lemma motions_of_update:
  "motions_of (AList.update k s ss) k' = (if k' = k then motions s else motions_of ss k')"
  by (simp add: motions_of_def update_conv')

lemma generate_motion_try_remote_fails:
  "generate_motion_from_remote (loads e) (ws_exchange e) = Inl x \<Longrightarrow>
   generate_motion_try cfg e s request = (s, Inl x)"
  by (simp add: generate_motion_try_def)

lemma generate_motion_try_convert_fails:
  "generate_motion_from_remote (loads e) (ws_exchange e) = Inr bs \<Longrightarrow>
   convert_npz_to_motion_data (load_npz e) (to_float32 e) (now_isoformat e) bs
     (''[AI] '' @ take 30 (request_text request)) = Inl x \<Longrightarrow>
   generate_motion_try cfg e s request = (s, Inl x)"
  by (simp add: generate_motion_try_def Let_def)

lemma enforce_motion_limit_fields:
  "enforce_motion_limit cfg s = Inr s' \<Longrightarrow>
   request_count s' = request_count s \<and> request_window_start s' = request_window_start s"
  by (auto simp: enforce_motion_limit_def split: if_splits sum.splits)

lemma store_motion_fields:
  "store_motion cfg mid md s = Inr s' \<Longrightarrow>
   request_count s' = request_count s \<and> request_window_start s' = request_window_start s"
  by (auto simp: store_motion_def and_then_def split: sum.splits dest: enforce_motion_limit_fields)

lemma generate_motion_try_fields:
  "request_count (fst (generate_motion_try cfg e s request)) = request_count s
   \<and> request_window_start (fst (generate_motion_try cfg e s request)) = request_window_start s"
  by (auto simp: generate_motion_try_def Let_def split: sum.splits dest: store_motion_fields)

lemma generate_motion_admitted_remote_fails:
  assumes adm: "snd (admission cfg e ss header)"
    and x: "generate_motion_from_remote (loads e) (ws_exchange e) = Inl x"
  shows "generate_motion cfg e ss header request =
           (AList.update (py_or header (uuid_session e)) (fst (admission cfg e ss header)) ss,
            Inl (reraise (exc_str e) x))"
  using adm by (simp add: generate_motion_unfold generate_motion_try_remote_fails [OF x])

text \<open>
  What the client returns. Every exception that leaves the body of its \<^verbatim>\<open>try\<close> statement
  and is not a \<^verbatim>\<open>TimeoutError\<close> ends in the \<^verbatim>\<open>AttributeError\<close> of the second \<^verbatim>\<open>except\<close>
  clause: the exception the client raises itself for a text answer as much as a refused
  connection or an exception of the library.
\<close>

lemma remote_text_answer:
  "generate_motion_from_remote jl (Received (Text msg)) = Inl AttributeError"
  by (auto simp: generate_motion_from_remote_def except_clauses_def ConnectionRefused_def Let_def
      split: option.splits json.splits)

lemma remote_raised:
  "generate_motion_from_remote jl (Raised x) =
     Inl (if x = TimeoutError
          then HTTPException 504
                 (Detail_dict (JStr ''Request timeout - generation took too long'')
                    (JStr ''TIMEOUT''))
          else AttributeError)"
  by (simp add: generate_motion_from_remote_def except_clauses_def ConnectionRefused_def)

lemma remote_binary_answer:
  "generate_motion_from_remote jl (Received (Binary response)) = Inr response"
  by (simp add: generate_motion_from_remote_def)

lemma admission_env0:
  "admission Config2 (env0\<lparr>ws_exchange := w\<rparr>) [] None = (session_u1, True)"
  by (simp add: admission_def get_or_create_session_def find_session_def py_or_def
      check_rate_limit_def env0_def Config2_def default_Config_def session_u1_def minutes_def
      Let_def)

lemma generate_motion_env0:
  "generate_motion_from_remote loads0 w = Inl x \<Longrightarrow>
   generate_motion Config2 (env0\<lparr>ws_exchange := w\<rparr>) [] None request0 =
     ([(''u1'', session_u1)], Inl (reraise str0 x))"
  using generate_motion_admitted_remote_fails
          [where cfg = Config2 and e = "env0\<lparr>ws_exchange := w\<rparr>" and ss = "[]" and header = None
             and x = x and request = request0]
  by (simp add: admission_env0) (simp add: env0_def py_or_def)

lemma loads0_error_text:
  "loads0 error_text = Some (JObj [(''error'', JStr ''bad prompt''), (''code'', JStr ''INVALID_INPUT'')])"
  by (simp add: loads0_def)

lemma loads0_other: "loads0 ''<html>'' = None"
  by (simp add: loads0_def error_text_def)

text \<open>
  Claim C6 at a text answer. The server answers the first request of a new session with the
  text \<open>error_text\<close>, which \<^verbatim>\<open>json.loads\<close> parses to the object with the error
  \<^verbatim>\<open>bad prompt\<close> and the code \<^verbatim>\<open>INVALID_INPUT\<close>. \<^verbatim>\<open>generate_motion\<close> answers with the status
  500 and the code \<^verbatim>\<open>GENERATION_FAILED\<close>, and the error text is that of the
  \<^verbatim>\<open>AttributeError\<close>: the fields of the object are lost. The same happens for a text that
  does not parse, where the claim expects the code \<^verbatim>\<open>INVALID_RESPONSE\<close>. No motion is stored,
  and a binary answer is returned unchanged.
\<close>

theorem text_answer_attribute_error:
  "loads0 error_text =
     Some (JObj [(''error'', JStr ''bad prompt''), (''code'', JStr ''INVALID_INPUT'')])
   \<and> generate_motion Config2 (env0\<lparr>ws_exchange := Received (Text error_text)\<rparr>) [] None request0 =
       ([(''u1'', session_u1)],
        Inl (HTTPException 500
               (Detail_dict (JStr (''Failed to generate motion: '' @ str0 AttributeError))
                  (JStr ''GENERATION_FAILED''))))
   \<and> exception_response
        (HTTPException 500
           (Detail_dict (JStr (''Failed to generate motion: '' @ str0 AttributeError))
              (JStr ''GENERATION_FAILED''))) =
       (500, \<lparr>success = False,
               error = JStr (''Failed to generate motion: '' @ str0 AttributeError),
               code = JStr ''GENERATION_FAILED''\<rparr>)
   \<and> loads0 ''<html>'' = None
   \<and> generate_motion Config2 (env0\<lparr>ws_exchange := Received (Text ''<html>'')\<rparr>) [] None request0 =
       ([(''u1'', session_u1)],
        Inl (HTTPException 500
               (Detail_dict (JStr (''Failed to generate motion: '' @ str0 AttributeError))
                  (JStr ''GENERATION_FAILED''))))
   \<and> motions session_u1 = []
   \<and> generate_motion_from_remote loads0 (Received (Binary [80, 75, 3, 4])) = Inr [80, 75, 3, 4]"
  by (simp add: generate_motion_env0 [OF remote_text_answer] loads0_error_text loads0_other
      remote_binary_answer session_u1_def)

text \<open>
  Claim C7 at the three failures of the transport, each for the first request of a new
  session. A refused connection and an exception of the WebSocket library both end in the
  status 500 with the code \<^verbatim>\<open>GENERATION_FAILED\<close>, where the claim expects the status 503
  with \<^verbatim>\<open>SERVER_UNAVAILABLE\<close> and a transport error of its own. A timeout ends in the status
  504 with the code \<^verbatim>\<open>TIMEOUT\<close>, as the claim says. No motion is stored in any of the three.
\<close>

theorem transport_failure_attribute_error:
  "generate_motion Config2 (env0\<lparr>ws_exchange := Raised ConnectionRefusedError\<rparr>) [] None request0 =
     ([(''u1'', session_u1)],
      Inl (HTTPException 500
             (Detail_dict (JStr (''Failed to generate motion: '' @ str0 AttributeError))
                (JStr ''GENERATION_FAILED''))))
   \<and> generate_motion Config2 (env0\<lparr>ws_exchange := Raised (WebSocketException ''no close frame'')\<rparr>)
         [] None request0 =
       ([(''u1'', session_u1)],
        Inl (HTTPException 500
               (Detail_dict (JStr (''Failed to generate motion: '' @ str0 AttributeError))
                  (JStr ''GENERATION_FAILED''))))
   \<and> generate_motion Config2 (env0\<lparr>ws_exchange := Raised TimeoutError\<rparr>) [] None request0 =
       ([(''u1'', session_u1)],
        Inl (HTTPException 504
               (Detail_dict (JStr ''Request timeout - generation took too long'')
                  (JStr ''TIMEOUT''))))
   \<and> exception_response
        (HTTPException 504
           (Detail_dict (JStr ''Request timeout - generation took too long'') (JStr ''TIMEOUT''))) =
       (504, \<lparr>success = False, error = JStr ''Request timeout - generation took too long'',
               code = JStr ''TIMEOUT''\<rparr>)
   \<and> motions session_u1 = []"
  by (simp add: generate_motion_env0 [OF remote_raised] session_u1_def)

text \<open>
  Claim C10. For a request the rate limiter admits, the session the registry holds after
  \<^verbatim>\<open>generate_motion\<close> has the request count and the window start that the admission check
  left, whatever happens afterwards, and that count is one more than the count before the
  check (zero where the check started a new window). When the exchange raises, or the
  exchange returns bytes and the codec raises, the registry holds exactly the session the
  admission check left and the answer is the error: nothing is rolled back.
\<close>

theorem failed_generation_keeps_count:
  "(snd (admission cfg e ss header) \<longrightarrow>
      (\<exists>s'. map_of (fst (generate_motion cfg e ss header request)) (py_or header (uuid_session e))
               = Some s'
            \<and> request_count s' = request_count (fst (admission cfg e ss header))
            \<and> request_window_start s' = request_window_start (fst (admission cfg e ss header)))
      \<and> request_count (fst (admission cfg e ss header)) =
          (if now_rate e
                - request_window_start
                    (snd (get_or_create_session ss header (now_session e) (now_factory e)
                            (uuid_session e)))
              > minutes 1
           then 0
           else request_count
                  (snd (get_or_create_session ss header (now_session e) (now_factory e)
                          (uuid_session e)))) + 1)
   \<and> (snd (admission cfg e ss header)
        \<and> generate_motion_from_remote (loads e) (ws_exchange e) = Inl x \<longrightarrow>
        generate_motion cfg e ss header request =
          (AList.update (py_or header (uuid_session e)) (fst (admission cfg e ss header)) ss,
           Inl (reraise (exc_str e) x)))
   \<and> (snd (admission cfg e ss header)
        \<and> generate_motion_from_remote (loads e) (ws_exchange e) = Inr bs
        \<and> convert_npz_to_motion_data (load_npz e) (to_float32 e) (now_isoformat e) bs
            (''[AI] '' @ take 30 (request_text request)) = Inl x \<longrightarrow>
        generate_motion cfg e ss header request =
          (AList.update (py_or header (uuid_session e)) (fst (admission cfg e ss header)) ss,
           Inl (reraise (exc_str e) x)))"
proof (intro conjI impI)
  assume adm: "snd (admission cfg e ss header)"
  let ?t = "generate_motion_try cfg e (fst (admission cfg e ss header)) request"
  have "map_of (fst (generate_motion cfg e ss header request)) (py_or header (uuid_session e))
          = Some (fst ?t)"
    using adm by (simp add: generate_motion_unfold update_conv')
  then show "\<exists>s'. map_of (fst (generate_motion cfg e ss header request)) (py_or header (uuid_session e))
               = Some s'
            \<and> request_count s' = request_count (fst (admission cfg e ss header))
            \<and> request_window_start s' = request_window_start (fst (admission cfg e ss header))"
    using generate_motion_try_fields [of cfg e "fst (admission cfg e ss header)" request] by simp
  show "request_count (fst (admission cfg e ss header)) =
          (if now_rate e
                - request_window_start
                    (snd (get_or_create_session ss header (now_session e) (now_factory e)
                            (uuid_session e)))
              > minutes 1
           then 0
           else request_count
                  (snd (get_or_create_session ss header (now_session e) (now_factory e)
                          (uuid_session e)))) + 1"
    using adm by (auto simp: admission_def check_rate_limit_def Let_def split: if_splits)
next
  assume "snd (admission cfg e ss header)
        \<and> generate_motion_from_remote (loads e) (ws_exchange e) = Inl x"
  then show "generate_motion cfg e ss header request =
          (AList.update (py_or header (uuid_session e)) (fst (admission cfg e ss header)) ss,
           Inl (reraise (exc_str e) x))"
    by (simp add: generate_motion_admitted_remote_fails)
next
  assume a: "snd (admission cfg e ss header)
        \<and> generate_motion_from_remote (loads e) (ws_exchange e) = Inr bs
        \<and> convert_npz_to_motion_data (load_npz e) (to_float32 e) (now_isoformat e) bs
            (''[AI] '' @ take 30 (request_text request)) = Inl x"
  then have "generate_motion_try cfg e (fst (admission cfg e ss header)) request =
      (fst (admission cfg e ss header), Inl x)"
    by (simp add: generate_motion_try_convert_fails)
  then show "generate_motion cfg e ss header request =
          (AList.update (py_or header (uuid_session e)) (fst (admission cfg e ss header)) ss,
           Inl (reraise (exc_str e) x))"
    using a by (simp add: generate_motion_unfold)
qed

theorem failed_generation_keeps_count_witness:
  "generate_motion Config2
     (env0\<lparr>ws_exchange := Received (Binary [80, 75, 3, 4]), load_npz := load_as npz_zero_fps\<rparr>)
     [] None request0 =
     ([(''u1'', session_u1)],
      Inl (HTTPException 500
             (Detail_dict (JStr ''Failed to generate motion: division by zero'')
                (JStr ''GENERATION_FAILED''))))
   \<and> generate_motion Config2 env0 [(''u1'', session_u1)] (Some ''u1'') request0 =
       ([(''u1'', session_u1\<lparr>request_count := 2\<rparr>)],
        Inl (HTTPException 504
               (Detail_dict (JStr ''Request timeout - generation took too long'')
                  (JStr ''TIMEOUT''))))
   \<and> request_count session_u1 = 1
   \<and> generate_motion Config2 env0 [(''u1'', session_u1\<lparr>request_count := 2\<rparr>)] (Some ''u1'') request0 =
       ([(''u1'', session_u1\<lparr>request_count := 2\<rparr>)],
        Inl (HTTPException 429
               (Detail_dict (JStr ''Rate limit exceeded - max 10 requests per minute'')
                  (JStr ''RATE_LIMIT''))))"
  using failed_generation_keeps_count
          [where cfg = Config2
             and e = "env0\<lparr>ws_exchange := Received (Binary [80, 75, 3, 4]),
                           load_npz := load_as npz_zero_fps\<rparr>"
             and ss = "[]" and header = None and request = request0
             and x = ZeroDivisionError and bs = "[80, 75, 3, 4]"]
        failed_generation_keeps_count
          [where cfg = Config2 and e = env0
             and ss = "[(''u1'', session_u1)]" and header = "Some ''u1''" and request = request0
             and x = "HTTPException 504
                        (Detail_dict (JStr ''Request timeout - generation took too long'')
                           (JStr ''TIMEOUT''))"
             and bs = "[]"]
  by (simp add: generate_motion_def get_or_create_session_def find_session_def py_or_def
      check_rate_limit_def generate_motion_try_def env0_def Config2_def default_Config_def
      session_u1_def minutes_def Let_def convert_npz_to_motion_data_def and_then_def load_as_def
      no_rounding_def npz_zero_fps_def npz_negative_fps_def npz_getitem_def getitem0_def
      astype_def trunc_def shape0_def str0_def admission_def generate_motion_from_remote_def
      except_clauses_def ConnectionRefused_def)

end
